theory Spec2Isabelle
  imports Main
begin

section \<open>Data model\<close>

text \<open>
  Shallow embedding of \<^verbatim>\<open>src/cli/layer.go\<close>: the CLI command \<^verbatim>\<open>runLayerPull\<close> and the
  registry-client operations \<^verbatim>\<open>ImageCopy\<close> and \<^verbatim>\<open>ImageExport\<close>.

  Byte slices and Go strings are \<open>string\<close> (lists of 8-bit characters).  A
  \<^verbatim>\<open>digest.Digest\<close> is a Go string type of the shape \<^verbatim>\<open>algorithm:hex\<close>; a point in time is
  its distance from the Unix epoch.
\<close>

type_synonym bytes = string
type_synonym digest = string
type_synonym path = string
type_synonym time = int

text \<open>Go \<^verbatim>\<open>error\<close> values: the package's \<^verbatim>\<open>ErrNotFound\<close>, or any other error.\<close>

datatype error = ErrNotFound | Err string

text \<open>The fields of \<^verbatim>\<open>Ref\<close> that the source reads.\<close>

record Ref =
  Reference :: string
  Registry :: string
  Repository :: string
  Digest :: string

text \<open>An OCI descriptor \<^verbatim>\<open>{MediaType, Digest, Size}\<close>.\<close>

record Descriptor =
  desc_MediaType :: string
  desc_Digest :: digest
  desc_Size :: int

text \<open>
  A fetched manifest, seen through the two accessors the source calls; each is a pure
  reading of the manifest and may fail.
\<close>

record Manifest =
  GetConfigDigest :: "error + digest"
  GetLayers :: "error + Descriptor list"

text \<open>
  An \<^verbatim>\<open>io.Reader\<close>: the bytes it yields, and the error that ends the stream
  (\<open>None\<close> for a clean end of file).
\<close>

record reader =
  rdata :: bytes
  rerr :: "error option"

text \<open>
  \<^verbatim>\<open>ociv1.Image\<close>: the creation time is a pointer (\<open>None\<close> is \<^verbatim>\<open>nil\<close>), the diff IDs are
  \<^verbatim>\<open>RootFS.DiffIDs\<close>, every other field is carried along unread.
\<close>

record Image =
  Created :: "time option"
  DiffIDs :: "digest list"
  rest :: string

text \<open>\<^verbatim>\<open>dockerTarManifest\<close>, one entry of \<^verbatim>\<open>manifest.json\<close>.\<close>

record dockerTarManifest =
  Config :: string
  RepoTags :: "string list"
  Layers :: "string list"

datatype level = Debug | Info | Warn

text \<open>
  What a Go function call ends in: it returns its \<^verbatim>\<open>error\<close> result (\<open>None\<close> is
  \<^verbatim>\<open>nil\<close>), or it panics.
\<close>

datatype outcome = Return "error option" | Panic string

text \<open>
  Every call that leaves the function is recorded, in order, with its arguments and
  what it answered.
\<close>

datatype event =
    EvLog level string
  | EvStderr string
  | EvManifestGet Ref "error + Manifest"
  | EvManifestPut Ref Manifest "error option"
  | EvBlobCopy Ref Ref string "error option"
  | EvBlobGet Ref string "string list" "reader option \<times> error option"
  | EvTempDir path string "error + path"
  | EvOpenFile path "error option"
  | EvCopyToFile path bytes "error option"
  | EvCloseFile path
  | EvRename path path "error option"
  | EvChtimes path time time "error option"
  | EvWriteFile path bytes "error option"
  | EvRemoveAll path "error option"
  | EvTar path "error + reader"
  | EvCopyOut bytes "error option"
  | EvCopyStdout bytes "error option"
  | EvClose reader

text \<open>A deferred call, run when the function exits.\<close>

datatype deferred = DeferRemoveAll path | DeferClose reader

text \<open>
  The collaborators of the source that are not part of it: the registry client's
  protocol calls, the operating system's file operations, the codec, JSON and digest
  libraries.  Calls with an effect take the state of the world \<open>'w\<close> (registries,
  file system, output stream) and return the new one; library functions are pure.

  \<^item> \<open>BlobGet\<close> answers like the Go function: a reader (possibly \<^verbatim>\<open>nil\<close>) and an error
    (possibly \<^verbatim>\<open>nil\<close>).
  \<^item> \<open>CopyToFile\<close> is the writing half of \<^verbatim>\<open>io.Copy(lf, tr)\<close>: the file at the path
    receives the bytes.
  \<^item> \<open>CopyOut\<close> is the writing half of \<^verbatim>\<open>io.Copy(outStream, fs)\<close>: it answers how many
    bytes the caller's stream took and the write error, if any; \<open>CopyStdout\<close> is the
    same for \<^verbatim>\<open>os.Stdout\<close>.
  \<^item> \<open>sha256hex\<close> is the hexadecimal SHA-256 of a byte sequence.
\<close>

record 'w env =
  CommonName :: "Ref \<Rightarrow> string"
  NewRef :: "string \<Rightarrow> error + Ref"
  ManifestGet :: "'w \<Rightarrow> Ref \<Rightarrow> (error + Manifest) \<times> 'w"
  ManifestPut :: "'w \<Rightarrow> Ref \<Rightarrow> Manifest \<Rightarrow> error option \<times> 'w"
  BlobCopy :: "'w \<Rightarrow> Ref \<Rightarrow> Ref \<Rightarrow> string \<Rightarrow> error option \<times> 'w"
  BlobGet :: "'w \<Rightarrow> Ref \<Rightarrow> string \<Rightarrow> string list \<Rightarrow> (reader option \<times> error option) \<times> 'w"
  TempDir :: "'w \<Rightarrow> path \<Rightarrow> string \<Rightarrow> (error + path) \<times> 'w"
  OpenFile :: "'w \<Rightarrow> path \<Rightarrow> error option \<times> 'w"
  CopyToFile :: "'w \<Rightarrow> path \<Rightarrow> bytes \<Rightarrow> error option \<times> 'w"
  Rename :: "'w \<Rightarrow> path \<Rightarrow> path \<Rightarrow> error option \<times> 'w"
  Chtimes :: "'w \<Rightarrow> path \<Rightarrow> time \<Rightarrow> time \<Rightarrow> error option \<times> 'w"
  WriteFile :: "'w \<Rightarrow> path \<Rightarrow> bytes \<Rightarrow> error option \<times> 'w"
  RemoveAll :: "'w \<Rightarrow> path \<Rightarrow> error option \<times> 'w"
  Tar :: "'w \<Rightarrow> path \<Rightarrow> (error + reader) \<times> 'w"
  CopyOut :: "'w \<Rightarrow> bytes \<Rightarrow> (nat \<times> error option) \<times> 'w"
  CopyStdout :: "'w \<Rightarrow> bytes \<Rightarrow> (nat \<times> error option) \<times> 'w"
  DecompressStream :: "reader \<Rightarrow> error + reader"
  json_Unmarshal :: "bytes \<Rightarrow> error + Image"
  json_Marshal_Image :: "Image \<Rightarrow> error + bytes"
  json_Marshal_Manifests :: "dockerTarManifest list \<Rightarrow> error + bytes"
  sha256hex :: "bytes \<Rightarrow> string"

text \<open>The state of a run: the world, the calls made so far, the pending deferred calls.\<close>

record 'w st =
  world :: 'w
  trace :: "event list"
  defers :: "deferred list"

definition init :: "'w \<Rightarrow> 'w st" where
  "init w = \<lparr>world = w, trace = [], defers = []\<rparr>"

definition emit :: "event \<Rightarrow> 'w st \<Rightarrow> 'w st" where
  "emit ev s = s\<lparr>trace := trace s @ [ev]\<rparr>"

text \<open>\<^verbatim>\<open>rc.log.WithFields(...).Warn(msg)\<close> and its siblings.\<close>

definition log :: "level \<Rightarrow> string \<Rightarrow> 'w st \<Rightarrow> 'w st" where
  "log lv msg s = emit (EvLog lv msg) s"

text \<open>
  One effectful call: run it on the world, keep the new world, record the event built
  from the answer.
\<close>

definition call :: "('w \<Rightarrow> 'a \<times> 'w) \<Rightarrow> ('a \<Rightarrow> event) \<Rightarrow> 'w st \<Rightarrow> 'a \<times> 'w st" where
  "call f ev s = (case f (world s) of (a, w') \<Rightarrow> (a, emit (ev a) (s\<lparr>world := w'\<rparr>)))"

subsection \<open>Library functions written out\<close>

text \<open>
  \<^verbatim>\<open>digest.FromBytes\<close>, \<^verbatim>\<open>digest.Canonical.FromBytes\<close> and a canonical digester fed the same
  bytes: the algorithm name, a colon, the hexadecimal hash.
\<close>

definition FromBytes :: "'w env \<Rightarrow> bytes \<Rightarrow> digest" where
  "FromBytes env p = ''sha256:'' @ sha256hex env p"

text \<open>
  \<^verbatim>\<open>Digest.Encoded\<close>: what follows the first colon; go-digest panics on a digest without
  a colon (\<open>None\<close>).
\<close>

definition Encoded :: "digest \<Rightarrow> string option" where
  "Encoded d = (if CHR '':'' \<in> set d then Some (drop 1 (dropWhile (\<lambda>c. c \<noteq> CHR '':'') d)) else None)"

text \<open>
  \<^verbatim>\<open>filepath.Join\<close> of two elements: empty elements are ignored, the others are joined by
  the separator.  (The final \<^verbatim>\<open>Clean\<close> changes nothing on the paths joined here: directory
  names as \<^verbatim>\<open>TempDir\<close> returns them, hexadecimal digests and fixed file names.)
\<close>

definition filepath_Join :: "path \<Rightarrow> path \<Rightarrow> path" where
  "filepath_Join a b = (if a = [] then b else if b = [] then a else a @ ''/'' @ b)"

text \<open>\<^verbatim>\<open>ioutil.ReadAll\<close>: everything the reader yields, and its error unless end of file.\<close>

definition ReadAll :: "reader \<Rightarrow> bytes \<times> error option" where
  "ReadAll r = (rdata r, rerr r)"

definition MediaTypeDocker2ImageConfig :: string where
  "MediaTypeDocker2ImageConfig = ''application/vnd.docker.container.image.v1+json''"

definition MediaTypeImageConfig :: string where
  "MediaTypeImageConfig = ''application/vnd.oci.image.config.v1+json''"

section \<open>ImageCopy\<close>

text \<open>The loop over the layers (lines 107 to 120): the first failed copy ends it.\<close>

fun ImageCopy_layers :: "'w env \<Rightarrow> Ref \<Rightarrow> Ref \<Rightarrow> Descriptor list \<Rightarrow> 'w st \<Rightarrow> error option \<times> 'w st" where
  "ImageCopy_layers env refSrc refTgt [] s = (None, s)"
| "ImageCopy_layers env refSrc refTgt (layerSrc # l) s =
     (case call (\<lambda>w. BlobCopy env w refSrc refTgt (desc_Digest layerSrc))
                (EvBlobCopy refSrc refTgt (desc_Digest layerSrc)) (log Info ''Copy layer'' s) of
        (Some err, s1) \<Rightarrow> (Some err, log Warn ''Failed to copy layer'' s1)
      | (None, s1) \<Rightarrow> ImageCopy_layers env refSrc refTgt l s1)"

definition ImageCopy :: "'w env \<Rightarrow> Ref \<Rightarrow> Ref \<Rightarrow> 'w st \<Rightarrow> error option \<times> 'w st" where
  "ImageCopy env refSrc refTgt s =
     (case call (\<lambda>w. ManifestGet env w refSrc) (EvManifestGet refSrc) s of
        (Inl err, s1) \<Rightarrow> (Some err, log Warn ''Failed to get source manifest'' s1)
      | (Inr m, s1) \<Rightarrow>
     (case GetConfigDigest m of
        Inl err \<Rightarrow> (Some err, log Warn ''Failed to get config digest from manifest'' s1)
      | Inr cd \<Rightarrow>
     (case call (\<lambda>w. BlobCopy env w refSrc refTgt cd) (EvBlobCopy refSrc refTgt cd)
                (log Info ''Copy config'' s1) of
        (Some err, s2) \<Rightarrow> (Some err, log Warn ''Failed to copy config'' s2)
      | (None, s2) \<Rightarrow>
     (case GetLayers m of
        Inl err \<Rightarrow> (Some err, s2)
      | Inr l \<Rightarrow>
     (case ImageCopy_layers env refSrc refTgt l s2 of
        (Some err, s3) \<Rightarrow> (Some err, s3)
      | (None, s3) \<Rightarrow>
     (case call (\<lambda>w. ManifestPut env w refTgt m) (EvManifestPut refTgt m) s3 of
        (Some err, s4) \<Rightarrow> (Some err, log Warn ''Failed to push manifest'' s4)
      | (None, s4) \<Rightarrow> (None, s4)))))))"

text \<open>The calls of a run that reach a registry.\<close>

fun is_registry :: "event \<Rightarrow> bool" where
  "is_registry (EvManifestGet _ _) = True"
| "is_registry (EvManifestPut _ _ _) = True"
| "is_registry (EvBlobCopy _ _ _ _) = True"
| "is_registry (EvBlobGet _ _ _ _) = True"
| "is_registry _ = False"

fun is_ManifestPut :: "event \<Rightarrow> bool" where
  "is_ManifestPut (EvManifestPut _ _ _) = True"
| "is_ManifestPut _ = False"

section \<open>ImageExport\<close>

text \<open>
  \<^verbatim>\<open>io.Copy(lf, tr)\<close> (line 250): the bytes read from the stream go to the file; the
  copy fails with the write error, else with the error that ended the stream.  The tee
  reader feeds the same bytes to the digester.
\<close>

definition io_Copy_file :: "'w env \<Rightarrow> path \<Rightarrow> reader \<Rightarrow> 'w st \<Rightarrow> error option \<times> 'w st" where
  "io_Copy_file env lf tr s =
     (case call (\<lambda>w. CopyToFile env w lf (rdata tr)) (EvCopyToFile lf (rdata tr)) s of
        (Some err, s1) \<Rightarrow> (Some err, s1)
      | (None, s1) \<Rightarrow> (rerr tr, s1))"

text \<open>
  \<^verbatim>\<open>io.Copy(outStream, fs)\<close> (line 310): the caller's stream takes a prefix of the
  archive; the copy fails with the write error, else with the error that ended the
  archive stream.
\<close>

definition io_Copy_out :: "'w env \<Rightarrow> reader \<Rightarrow> 'w st \<Rightarrow> error option \<times> 'w st" where
  "io_Copy_out env fs s =
     (case CopyOut env (world s) (rdata fs) of
        ((n, werr), w') \<Rightarrow>
          (let err = (case werr of Some e \<Rightarrow> Some e | None \<Rightarrow> rerr fs)
           in (err, emit (EvCopyOut (take n (rdata fs)) err) (s\<lparr>world := w'\<rparr>))))"

definition digest_warning :: "digest \<Rightarrow> digest \<Rightarrow> string" where
  "digest_warning cd confDigest =
     ''Warning: digest for image config does not match, pulled '' @ cd @
     '', calculated '' @ confDigest @ [CHR 0x0A]"

text \<open>
  Lines 166 to 209: fetch, read, check and decode the image configuration, and reset
  its diff IDs.  \<open>Inl\<close> is an exit from \<open>ImageExport\<close>.
\<close>

definition ImageExport_config :: "'w env \<Rightarrow> Ref \<Rightarrow> Manifest \<Rightarrow> 'w st \<Rightarrow> (outcome + Image) \<times> 'w st" where
  "ImageExport_config env ref m s =
     (case GetConfigDigest m of
        Inl err \<Rightarrow> (Inl (Return (Some err)), log Warn ''Failed to get config digest from manifest'' s)
      | Inr cd \<Rightarrow>
     (case call (\<lambda>w. BlobGet env w ref cd [MediaTypeDocker2ImageConfig, MediaTypeImageConfig])
                (EvBlobGet ref cd [MediaTypeDocker2ImageConfig, MediaTypeImageConfig]) s of
        ((confio, Some err), s1) \<Rightarrow> (Inl (Return (Some err)), log Warn ''Failed to get config'' s1)
      | ((None, None), s1) \<Rightarrow> (Inl (Panic ''nil pointer dereference''), s1)
      | ((Some confio, None), s1) \<Rightarrow>
     (case ReadAll confio of
        (confstr, Some err) \<Rightarrow> (Inl (Return (Some err)), log Warn ''Failed to download config'' s1)
      | (confstr, None) \<Rightarrow>
     (let confDigest = FromBytes env confstr;
          s2 = (if cd \<noteq> confDigest
                then emit (EvStderr (digest_warning cd confDigest)) (log Warn ''Config digest mismatch'' s1)
                else s1)
      in (case json_Unmarshal env confstr of
            Inl err \<Rightarrow> (Inl (Return (Some err)), s2)
          | Inr conf \<Rightarrow> (Inr (conf\<lparr>DiffIDs := []\<rparr>), s2))))))"

text \<open>
  One turn of the loop over the layers (lines 216 to 269), on the archive manifest
  entry and the configuration built so far.
\<close>

definition ImageExport_layer ::
  "'w env \<Rightarrow> Ref \<Rightarrow> path \<Rightarrow> dockerTarManifest \<times> Image \<Rightarrow> Descriptor \<Rightarrow> 'w st
     \<Rightarrow> (outcome + dockerTarManifest \<times> Image) \<times> 'w st" where
  "ImageExport_layer env ref tempDir acc layerDesc s =
     (case acc of (expManifest, conf) \<Rightarrow>
     (case call (\<lambda>w. TempDir env w tempDir ''layer-*'') (EvTempDir tempDir ''layer-*'') s of
        (Inl err, s1) \<Rightarrow> (Inl (Return (Some err)), s1)
      | (Inr layerDir, s1) \<Rightarrow>
     (case call (\<lambda>w. BlobGet env w ref (desc_Digest layerDesc) [])
                (EvBlobGet ref (desc_Digest layerDesc) []) s1 of
        ((layerRComp, Some err), s2) \<Rightarrow> (Inl (Return (Some err)), log Warn ''Failed to download layer'' s2)
      | ((None, None), s2) \<Rightarrow> (Inl (Panic ''nil pointer dereference''), s2)
      | ((Some layerRComp, None), s2) \<Rightarrow>
     (let s3 = s2\<lparr>defers := DeferClose layerRComp # defers s2\<rparr> in
     (case DecompressStream env layerRComp of
        Inl err \<Rightarrow> (Inl (Return (Some err)), s3)
      | Inr layerTarStream \<Rightarrow>
     (let layerTarFile = filepath_Join layerDir ''layer.tar'' in
     (case call (\<lambda>w. OpenFile env w layerTarFile) (EvOpenFile layerTarFile) s3 of
        (Some err, s4) \<Rightarrow> (Inl (Return (Some err)), s4)
      | (None, s4) \<Rightarrow>
     (case io_Copy_file env layerTarFile layerTarStream s4 of
        (Some err, s5) \<Rightarrow> (Inl (Return (Some err)), s5)
      | (None, s5) \<Rightarrow>
     (let s6 = emit (EvCloseFile layerTarFile) s5;
          digestFull = FromBytes env (rdata layerTarStream) in
     (case Encoded digestFull of
        None \<Rightarrow> (Inl (Panic ''no separator in digest''), s6)
      | Some digestHex \<Rightarrow>
     (let digestDir = filepath_Join tempDir digestHex;
          digestFile = filepath_Join digestHex ''layer.tar'';
          digestFileFull = filepath_Join tempDir digestFile in
     (case call (\<lambda>w. Rename env w layerDir digestDir) (EvRename layerDir digestDir) s6 of
        (Some err, s7) \<Rightarrow> (Inl (Return (Some err)), s7)
      | (None, s7) \<Rightarrow>
     (case Created conf of
        None \<Rightarrow> (Inl (Panic ''nil pointer dereference''), s7)
      | Some created \<Rightarrow>
     (case call (\<lambda>w. Chtimes env w digestFileFull created created)
                (EvChtimes digestFileFull created created) s7 of
        (Some err, s8) \<Rightarrow> (Inl (Return (Some err)), s8)
      | (None, s8) \<Rightarrow>
          (Inr (expManifest\<lparr>Layers := Layers expManifest @ [digestFile]\<rparr>,
                conf\<lparr>DiffIDs := DiffIDs conf @ [digestFull]\<rparr>), s8)))))))))))))))"

text \<open>The loop of line 215, in manifest order; an exit inside a turn ends it.\<close>

fun ImageExport_layers ::
  "'w env \<Rightarrow> Ref \<Rightarrow> path \<Rightarrow> dockerTarManifest \<times> Image \<Rightarrow> Descriptor list \<Rightarrow> 'w st
     \<Rightarrow> (outcome + dockerTarManifest \<times> Image) \<times> 'w st" where
  "ImageExport_layers env ref tempDir acc [] s = (Inr acc, s)"
| "ImageExport_layers env ref tempDir acc (layerDesc # l) s =
     (case ImageExport_layer env ref tempDir acc layerDesc s of
        (Inl out, s1) \<Rightarrow> (Inl out, s1)
      | (Inr acc', s1) \<Rightarrow> ImageExport_layers env ref tempDir acc' l s1)"

text \<open>
  Lines 273 to 312: write the configuration and \<^verbatim>\<open>manifest.json\<close>, package the work
  directory and copy the archive to the caller's stream.  The error of that last copy is
  assigned and not looked at: the function returns \<^verbatim>\<open>nil\<close>.
\<close>

definition ImageExport_finish :: "'w env \<Rightarrow> path \<Rightarrow> dockerTarManifest \<Rightarrow> Image \<Rightarrow> 'w st \<Rightarrow> outcome \<times> 'w st" where
  "ImageExport_finish env tempDir expManifest conf s =
     (case json_Marshal_Image env conf of
        Inl err \<Rightarrow> (Return (Some err), s)
      | Inr confstr \<Rightarrow>
     (case Encoded (FromBytes env confstr) of
        None \<Rightarrow> (Panic ''no separator in digest'', s)
      | Some confHex \<Rightarrow>
     (let confFile = confHex @ ''.json'';
          confFileFull = filepath_Join tempDir confFile in
     (case call (\<lambda>w. WriteFile env w confFileFull confstr) (EvWriteFile confFileFull confstr) s of
        (Some err, s1) \<Rightarrow> (Return (Some err), s1)
      | (None, s1) \<Rightarrow>
     (case Created conf of
        None \<Rightarrow> (Panic ''nil pointer dereference'', s1)
      | Some created \<Rightarrow>
     (case call (\<lambda>w. Chtimes env w confFileFull created created)
                (EvChtimes confFileFull created created) s1 of
        (Some err, s2) \<Rightarrow> (Return (Some err), s2)
      | (None, s2) \<Rightarrow>
     (case json_Marshal_Manifests env [expManifest\<lparr>Config := confFile\<rparr>] of
        Inl err \<Rightarrow> (Return (Some err), s2)
      | Inr mlj \<Rightarrow>
     (let manifestFile = filepath_Join tempDir ''manifest.json'' in
     (case call (\<lambda>w. WriteFile env w manifestFile mlj) (EvWriteFile manifestFile mlj) s2 of
        (Some err, s3) \<Rightarrow> (Return (Some err), s3)
      | (None, s3) \<Rightarrow>
     (case call (\<lambda>w. Chtimes env w manifestFile 0 0) (EvChtimes manifestFile 0 0) s3 of
        (Some err, s4) \<Rightarrow> (Return (Some err), s4)
      | (None, s4) \<Rightarrow>
     (case call (\<lambda>w. Tar env w tempDir) (EvTar tempDir) s4 of
        (Inl err, s5) \<Rightarrow> (Return (Some err), s5)
      | (Inr fs, s5) \<Rightarrow>
     (case io_Copy_out env fs (s5\<lparr>defers := DeferClose fs # defers s5\<rparr>) of
        (err, s6) \<Rightarrow> (Return None, s6)))))))))))))"

text \<open>Lines 162 to 312, everything after the work directory exists.\<close>

definition ImageExport_body ::
  "'w env \<Rightarrow> Ref \<Rightarrow> Manifest \<Rightarrow> path \<Rightarrow> dockerTarManifest \<Rightarrow> 'w st \<Rightarrow> outcome \<times> 'w st" where
  "ImageExport_body env ref m tempDir expManifest s =
     (case ImageExport_config env ref m (log Debug ''Using temp directory for export'' s) of
        (Inl out, s1) \<Rightarrow> (out, s1)
      | (Inr conf, s1) \<Rightarrow>
     (case GetLayers m of
        Inl err \<Rightarrow> (Return (Some err), s1)
      | Inr l \<Rightarrow>
     (case ImageExport_layers env ref tempDir (expManifest, conf) l s1 of
        (Inl out, s2) \<Rightarrow> (out, s2)
      | (Inr (expManifest', conf'), s2) \<Rightarrow> ImageExport_finish env tempDir expManifest' conf' s2)))"

text \<open>
  The deferred calls run when the function exits, by return or by panic, last
  deferred first.  What they return is dropped.
\<close>

fun run_defers :: "'w env \<Rightarrow> deferred list \<Rightarrow> 'w st \<Rightarrow> 'w st" where
  "run_defers env [] s = s"
| "run_defers env (DeferRemoveAll p # ds) s =
     run_defers env ds (snd (call (\<lambda>w. RemoveAll env w p) (EvRemoveAll p) s))"
| "run_defers env (DeferClose r # ds) s = run_defers env ds (emit (EvClose r) s)"

definition exit_defers :: "'w env \<Rightarrow> 'w st \<Rightarrow> 'w st" where
  "exit_defers env s = (run_defers env (defers s) s)\<lparr>defers := []\<rparr>"

definition ImageExport :: "'w env \<Rightarrow> Ref \<Rightarrow> 'w st \<Rightarrow> outcome \<times> 'w st" where
  "ImageExport env ref s =
     (if CommonName env ref = [] then (Return (Some ErrNotFound), s)
      else
     (let expManifest = \<lparr>Config = [], RepoTags = [] @ [CommonName env ref], Layers = []\<rparr> in
     (case call (\<lambda>w. ManifestGet env w ref) (EvManifestGet ref) s of
        (Inl err, s1) \<Rightarrow> (Return (Some err), log Warn ''Failed to get manifest'' s1)
      | (Inr m, s1) \<Rightarrow>
     (case call (\<lambda>w. TempDir env w [] ''regcli-export-'') (EvTempDir [] ''regcli-export-'') s1 of
        (Inl err, s2) \<Rightarrow> (Return (Some err), log Warn ''Failed to create temp directory'' s2)
      | (Inr tempDir, s2) \<Rightarrow>
     (case ImageExport_body env ref m tempDir expManifest
             (s2\<lparr>defers := DeferRemoveAll tempDir # defers s2\<rparr>) of
        (out, s3) \<Rightarrow> (out, exit_defers env s3))))))"

section \<open>runLayerPull\<close>

text \<open>
  \<^verbatim>\<open>io.Copy(os.Stdout, blobIO)\<close> (line 44).  Reading from a \<^verbatim>\<open>nil\<close> reader is a nil
  pointer dereference.
\<close>

definition io_Copy_stdout :: "'w env \<Rightarrow> reader option \<Rightarrow> 'w st \<Rightarrow> outcome \<times> 'w st" where
  "io_Copy_stdout env blobIO s =
     (case blobIO of
        None \<Rightarrow> (Panic ''nil pointer dereference'', s)
      | Some r \<Rightarrow>
     (case CopyStdout env (world s) (rdata r) of
        ((n, werr), w') \<Rightarrow>
          (let err = (case werr of Some e \<Rightarrow> Some e | None \<Rightarrow> rerr r)
           in (Return err, emit (EvCopyStdout (take n (rdata r)) err) (s\<lparr>world := w'\<rparr>)))))"

text \<open>
  The command takes exactly two arguments (\<^verbatim>\<open>cobra.RangeArgs(2, 2)\<close>).  The error that
  \<^verbatim>\<open>BlobGet\<close> returns is overwritten by the result of the copy before it is read.
\<close>

definition runLayerPull :: "'w env \<Rightarrow> string \<Rightarrow> string \<Rightarrow> 'w st \<Rightarrow> outcome \<times> 'w st" where
  "runLayerPull env arg0 arg1 s =
     (case NewRef env arg0 of
        Inl err \<Rightarrow> (Return (Some err), s)
      | Inr ref \<Rightarrow>
     (case call (\<lambda>w. BlobGet env w ref arg1 []) (EvBlobGet ref arg1 []) (log Debug ''Pulling layer'' s) of
        ((blobIO, err), s1) \<Rightarrow>
     (case io_Copy_stdout env blobIO s1 of
        (Return (Some err'), s2) \<Rightarrow> (Return (Some err'), s2)
      | (Return None, s2) \<Rightarrow> (Return None, s2)
      | (Panic msg, s2) \<Rightarrow> (Panic msg, s2))))"

section \<open>A concrete environment\<close>

text \<open>
  A small world on which runs can be evaluated: a source registry holding one manifest
  and its blobs, a destination registry, a file system with the directory rules of POSIX,
  and an output stream with room for a given number of bytes.  The codec, the JSON
  encoding and the hash are simple stand-ins; the theorems about the program hold for
  every environment.
\<close>

datatype node = Dir | File bytes time

record cworld =
  files :: "(path \<times> node) list"
  names :: "string list"
  now :: time
  sink :: bytes
  sink_room :: "nat option"
  stdout :: bytes
  src_manifest :: "error + Manifest"
  src_blobs :: "(string \<times> reader) list"
  dst_blobs :: "string list"
  dst_manifests :: "Manifest list"

definition is_under :: "path \<Rightarrow> path \<Rightarrow> bool" where
  "is_under d p = (take (length d + 1) p = d @ ''/'')"

definition dirname :: "path \<Rightarrow> path" where
  "dirname p = rev (drop 1 (dropWhile (\<lambda>c. c \<noteq> CHR ''/'') (rev p)))"

definition set_node :: "path \<Rightarrow> node \<Rightarrow> (path \<times> node) list \<Rightarrow> (path \<times> node) list" where
  "set_node p n fs = map (\<lambda>(q, k). if q = p then (q, n) else (q, k)) fs"

text \<open>
  \<^verbatim>\<open>ioutil.TempDir(dir, pattern)\<close>: a new directory under \<open>dir\<close> (the system's temporary
  directory when \<open>dir\<close> is empty) whose name is the pattern with a random string in place
  of the star, or at its end.
\<close>

definition c_TempDir :: "cworld \<Rightarrow> path \<Rightarrow> string \<Rightarrow> (error + path) \<times> cworld" where
  "c_TempDir w dir pattern =
     (case names w of
        [] \<Rightarrow> (Inl (Err ''no name left''), w)
      | n # ns \<Rightarrow>
          (let base = (if dir = [] then ''/tmp'' else dir);
               name = filepath_Join base (takeWhile (\<lambda>c. c \<noteq> CHR ''*'') pattern @ n @
                        drop 1 (dropWhile (\<lambda>c. c \<noteq> CHR ''*'') pattern))
           in if map_of (files w) base \<noteq> Some Dir then (Inl (Err ''ENOENT''), w)
              else if map_of (files w) name \<noteq> None then (Inl (Err ''EEXIST''), w)
              else (Inr name, w\<lparr>files := files w @ [(name, Dir)], names := ns\<rparr>)))"

text \<open>Create or truncate a file; its directory must exist.\<close>

definition c_create :: "cworld \<Rightarrow> path \<Rightarrow> bytes \<Rightarrow> error option \<times> cworld" where
  "c_create w p content =
     (if map_of (files w) (dirname p) \<noteq> Some Dir then (Some (Err ''ENOENT''), w)
      else if map_of (files w) p = Some Dir then (Some (Err ''EISDIR''), w)
      else (None, w\<lparr>files := filter (\<lambda>(q, k). q \<noteq> p) (files w) @ [(p, File content (now w))]\<rparr>))"

definition c_CopyToFile :: "cworld \<Rightarrow> path \<Rightarrow> bytes \<Rightarrow> error option \<times> cworld" where
  "c_CopyToFile w p data =
     (case map_of (files w) p of
        Some (File c t) \<Rightarrow> (None, w\<lparr>files := set_node p (File (c @ data) (now w)) (files w)\<rparr>)
      | _ \<Rightarrow> (Some (Err ''EBADF''), w))"

text \<open>
  \<^verbatim>\<open>rename(2)\<close>: the old path must exist; a new path that is a directory with entries
  is not replaced (\<^verbatim>\<open>ENOTEMPTY\<close>); otherwise the old path and all below it move.
\<close>

definition c_Rename :: "cworld \<Rightarrow> path \<Rightarrow> path \<Rightarrow> error option \<times> cworld" where
  "c_Rename w old new =
     (if map_of (files w) old = None then (Some (Err ''ENOENT''), w)
      else if map_of (files w) new = Some Dir \<and> list_ex (\<lambda>(q, k). is_under new q) (files w)
        then (Some (Err ''ENOTEMPTY''), w)
      else (None, w\<lparr>files :=
              map (\<lambda>(q, k). (if q = old then new
                             else if is_under old q then new @ drop (length old) q else q, k))
                  (filter (\<lambda>(q, k). q \<noteq> new) (files w))\<rparr>))"

definition c_Chtimes :: "cworld \<Rightarrow> path \<Rightarrow> time \<Rightarrow> time \<Rightarrow> error option \<times> cworld" where
  "c_Chtimes w p atime mtime =
     (case map_of (files w) p of
        None \<Rightarrow> (Some (Err ''ENOENT''), w)
      | Some Dir \<Rightarrow> (None, w)
      | Some (File c t) \<Rightarrow> (None, w\<lparr>files := set_node p (File c mtime) (files w)\<rparr>))"

definition c_RemoveAll :: "cworld \<Rightarrow> path \<Rightarrow> error option \<times> cworld" where
  "c_RemoveAll w p = (None, w\<lparr>files := filter (\<lambda>(q, k). q \<noteq> p \<and> \<not> is_under p q) (files w)\<rparr>)"

text \<open>The archive of a directory: every entry below it, by its relative name.\<close>

definition c_Tar :: "cworld \<Rightarrow> path \<Rightarrow> (error + reader) \<times> cworld" where
  "c_Tar w p =
     (if map_of (files w) p \<noteq> Some Dir then (Inl (Err ''ENOENT''), w)
      else (Inr \<lparr>rdata = concat (map (\<lambda>(q, k). drop (length p + 1) q @
                            (case k of Dir \<Rightarrow> ''/;'' | File c t \<Rightarrow> ''='' @ c @ '';''))
                          (filter (\<lambda>(q, k). is_under p q) (files w))),
                rerr = None\<rparr>, w))"

definition c_CopyOut :: "cworld \<Rightarrow> bytes \<Rightarrow> (nat \<times> error option) \<times> cworld" where
  "c_CopyOut w data =
     (case sink_room w of
        None \<Rightarrow> ((length data, None), w\<lparr>sink := sink w @ data\<rparr>)
      | Some k \<Rightarrow>
          if length data \<le> k
          then ((length data, None), w\<lparr>sink := sink w @ data, sink_room := Some (k - length data)\<rparr>)
          else ((k, Some (Err ''short write'')), w\<lparr>sink := sink w @ take k data, sink_room := Some 0\<rparr>))"

definition c_CopyStdout :: "cworld \<Rightarrow> bytes \<Rightarrow> (nat \<times> error option) \<times> cworld" where
  "c_CopyStdout w data = ((length data, None), w\<lparr>stdout := stdout w @ data\<rparr>)"

definition c_ManifestGet :: "cworld \<Rightarrow> Ref \<Rightarrow> (error + Manifest) \<times> cworld" where
  "c_ManifestGet w ref = (src_manifest w, w)"

definition c_ManifestPut :: "cworld \<Rightarrow> Ref \<Rightarrow> Manifest \<Rightarrow> error option \<times> cworld" where
  "c_ManifestPut w ref m = (None, w\<lparr>dst_manifests := dst_manifests w @ [m]\<rparr>)"

definition c_BlobGet :: "cworld \<Rightarrow> Ref \<Rightarrow> string \<Rightarrow> string list \<Rightarrow> (reader option \<times> error option) \<times> cworld" where
  "c_BlobGet w ref d accept =
     (case map_of (src_blobs w) d of
        None \<Rightarrow> ((None, Some ErrNotFound), w)
      | Some r \<Rightarrow> ((Some r, None), w))"

definition c_BlobCopy :: "cworld \<Rightarrow> Ref \<Rightarrow> Ref \<Rightarrow> string \<Rightarrow> error option \<times> cworld" where
  "c_BlobCopy w refSrc refTgt d =
     (case map_of (src_blobs w) d of
        None \<Rightarrow> (Some ErrNotFound, w)
      | Some r \<Rightarrow> (None, w\<lparr>dst_blobs := dst_blobs w @ [d]\<rparr>))"

text \<open>A stream marked \<^verbatim>\<open>gz:\<close> is unpacked; any other stream passes through unchanged.\<close>

definition c_Decompress :: "reader \<Rightarrow> error + reader" where
  "c_Decompress r = (if take 3 (rdata r) = ''gz:'' then Inr (r\<lparr>rdata := drop 3 (rdata r)\<rparr>) else Inr r)"

text \<open>
  A configuration document starts with a brace; the letter \<^verbatim>\<open>T\<close> after it stands for a
  creation time.  The document as fetched lists diff IDs of its own.
\<close>

definition c_Unmarshal :: "bytes \<Rightarrow> error + Image" where
  "c_Unmarshal b =
     (if take 1 b \<noteq> ''{'' then Inl (Err ''invalid character'')
      else Inr \<lparr>Created = (if take 1 (drop 1 b) = ''T'' then Some 1600000000 else None),
                DiffIDs = [''sha256:stale''], rest = b\<rparr>)"

definition c_Marshal_Image :: "Image \<Rightarrow> error + bytes" where
  "c_Marshal_Image c =
     Inr (''{created:'' @ (case Created c of None \<Rightarrow> ''null'' | Some t \<Rightarrow> ''T'') @
          '',diff_ids:['' @ concat (map (\<lambda>d. d @ '','') (DiffIDs c)) @ ''],'' @ rest c @ ''}'')"

definition c_Marshal_Manifests :: "dockerTarManifest list \<Rightarrow> error + bytes" where
  "c_Marshal_Manifests ml =
     Inr (''['' @ concat (map (\<lambda>e. ''{Config:'' @ Config e @
                 '',RepoTags:['' @ concat (map (\<lambda>t. t @ '','') (RepoTags e)) @
                 ''],Layers:['' @ concat (map (\<lambda>t. t @ '','') (Layers e)) @ '']}'') ml) @ '']'')"

definition c_NewRef :: "string \<Rightarrow> error + Ref" where
  "c_NewRef a =
     (if a = [] then Inl (Err ''invalid reference'')
      else Inr \<lparr>Reference = a, Registry = takeWhile (\<lambda>c. c \<noteq> CHR ''/'') a,
                Repository = drop 1 (dropWhile (\<lambda>c. c \<noteq> CHR ''/'') a), Digest = []\<rparr>)"

definition test_env :: "cworld env" where
  "test_env =
     \<lparr>CommonName = Reference, NewRef = c_NewRef,
      ManifestGet = c_ManifestGet, ManifestPut = c_ManifestPut,
      BlobCopy = c_BlobCopy, BlobGet = c_BlobGet,
      TempDir = c_TempDir, OpenFile = (\<lambda>w p. c_create w p []), CopyToFile = c_CopyToFile,
      Rename = c_Rename, Chtimes = c_Chtimes, WriteFile = c_create, RemoveAll = c_RemoveAll,
      Tar = c_Tar, CopyOut = c_CopyOut, CopyStdout = c_CopyStdout,
      DecompressStream = c_Decompress, json_Unmarshal = c_Unmarshal,
      json_Marshal_Image = c_Marshal_Image, json_Marshal_Manifests = c_Marshal_Manifests,
      sha256hex = (\<lambda>b. ''h'' @ b)\<rparr>"

definition test_ref :: Ref where
  "test_ref = \<lparr>Reference = ''reg/app'', Registry = ''reg'', Repository = ''app'', Digest = []\<rparr>"

definition test_dst :: Ref where
  "test_dst = \<lparr>Reference = ''mirror/app'', Registry = ''mirror'', Repository = ''app'', Digest = []\<rparr>"

definition layer :: "digest \<Rightarrow> Descriptor" where
  "layer d = \<lparr>desc_MediaType = ''application/vnd.docker.image.rootfs.diff.tar.gzip'',
              desc_Digest = d, desc_Size = 0\<rparr>"

definition blob :: "bytes \<Rightarrow> reader" where
  "blob b = \<lparr>rdata = b, rerr = None\<rparr>"

text \<open>
  A world whose source registry serves a manifest with the given config digest and
  layers, and the given blobs.
\<close>

definition test_world :: "digest \<Rightarrow> digest list \<Rightarrow> (string \<times> reader) list \<Rightarrow> nat option \<Rightarrow> cworld" where
  "test_world cd ls blobs room =
     \<lparr>files = [(''/tmp'', Dir)], names = [''1'', ''2'', ''3'', ''4''], now = 1700000000,
      sink = [], sink_room = room, stdout = [],
      src_manifest = Inr \<lparr>GetConfigDigest = Inr cd, GetLayers = Inr (map layer ls)\<rparr>,
      src_blobs = blobs, dst_blobs = [], dst_manifests = []\<rparr>"

text \<open>The worlds on which runs are evaluated below.\<close>

definition w_two :: cworld where
  "w_two = test_world ''sha256:c0nfig'' [''sha256:L1'', ''sha256:L2'']
     [(''sha256:c0nfig'', blob ''{T}''), (''sha256:L1'', blob ''gz:AA''), (''sha256:L2'', blob ''BB'')] None"

definition w_missing :: cworld where
  "w_missing = test_world ''sha256:c0nfig'' [''sha256:L1'', ''sha256:L2'']
     [(''sha256:c0nfig'', blob ''{T}''), (''sha256:L1'', blob ''gz:AA'')] None"

text \<open>The same registry, and an output stream that takes five bytes and then fails.\<close>

definition w_short :: cworld where
  "w_short = test_world ''sha256:c0nfig'' [''sha256:L1'', ''sha256:L2'']
     [(''sha256:c0nfig'', blob ''{T}''), (''sha256:L1'', blob ''gz:AA''), (''sha256:L2'', blob ''BB'')] (Some 5)"

text \<open>A registry client whose blob fetch fails and hands back a reader all the same.\<close>

definition env_failing_fetch :: "cworld env" where
  "env_failing_fetch = test_env\<lparr>BlobGet := (\<lambda>w r d a. ((Some (blob ''partial''), Some ErrNotFound), w))\<rparr>"

definition ref_unnamed :: Ref where
  "ref_unnamed = \<lparr>Reference = [], Registry = ''reg'', Repository = ''app'', Digest = []\<rparr>"

section \<open>Views of a run\<close>

text \<open>The media types \<open>ImageExport\<close> accepts for the configuration blob.\<close>

definition config_types :: "string list" where
  "config_types = [MediaTypeDocker2ImageConfig, MediaTypeImageConfig]"

text \<open>The files written whole (\<^verbatim>\<open>ioutil.WriteFile\<close>) without error, with their content.\<close>

fun written_of :: "event \<Rightarrow> (path \<times> bytes) list" where
  "written_of (EvWriteFile p c None) = [(p, c)]"
| "written_of _ = []"

definition written :: "event list \<Rightarrow> (path \<times> bytes) list" where
  "written tr = concat (map written_of tr)"

text \<open>The modification times set (\<^verbatim>\<open>os.Chtimes\<close>) without error.\<close>

fun mtime_of :: "event \<Rightarrow> time list" where
  "mtime_of (EvChtimes p a m None) = [m]"
| "mtime_of _ = []"

definition mtimes :: "event list \<Rightarrow> time list" where
  "mtimes tr = concat (map mtime_of tr)"

fun is_Rename :: "event \<Rightarrow> bool" where
  "is_Rename (EvRename _ _ _) = True"
| "is_Rename _ = False"

fun is_Chtimes :: "event \<Rightarrow> bool" where
  "is_Chtimes (EvChtimes _ _ _ _) = True"
| "is_Chtimes _ = False"

text \<open>The calls that stage the archive in the work directory.\<close>

fun is_staging :: "event \<Rightarrow> bool" where
  "is_staging (EvOpenFile _ _) = True"
| "is_staging (EvCopyToFile _ _ _) = True"
| "is_staging (EvCloseFile _) = True"
| "is_staging (EvRename _ _ _) = True"
| "is_staging (EvChtimes _ _ _ _) = True"
| "is_staging (EvWriteFile _ _ _) = True"
| "is_staging (EvTempDir _ _ _) = True"
| "is_staging (EvTar _ _) = True"
| "is_staging (EvCopyOut _ _) = True"
| "is_staging _ = False"

text \<open>The deferred calls.\<close>

fun is_cleanup :: "event \<Rightarrow> bool" where
  "is_cleanup (EvClose _) = True"
| "is_cleanup (EvRemoveAll _ _) = True"
| "is_cleanup _ = False"

text \<open>
  The world \<open>w_two\<close> at another time, with other random names for the temporary
  directories.
\<close>

definition w_two_later :: cworld where
  "w_two_later = w_two\<lparr>names := [''x'', ''y'', ''z''], now := 1800000000\<rparr>"

section \<open>Basic facts about states and calls\<close>

lemma trace_emit [simp]: "trace (emit ev s) = trace s @ [ev]"
  by (simp add: emit_def)

lemma world_emit [simp]: "world (emit ev s) = world s"
  by (simp add: emit_def)

lemma defers_emit [simp]: "defers (emit ev s) = defers s"
  by (simp add: emit_def)

lemma trace_log [simp]: "trace (log lv msg s) = trace s @ [EvLog lv msg]"
  by (simp add: log_def)

lemma world_log [simp]: "world (log lv msg s) = world s"
  by (simp add: log_def)

lemma defers_log [simp]: "defers (log lv msg s) = defers s"
  by (simp add: log_def)

lemma call_eq:
  "call f ev s = (a, s') \<longleftrightarrow>
     (\<exists>w'. f (world s) = (a, w') \<and> s' = emit (ev a) (s\<lparr>world := w'\<rparr>))"
  by (auto simp: call_def split: prod.splits)

lemma Encoded_FromBytes [simp]: "Encoded (FromBytes env b) = Some (sha256hex env b)"
  by (simp add: Encoded_def FromBytes_def)

section \<open>Properties of ImageCopy\<close>

lemma ImageCopy_layers_ok:
  "ImageCopy_layers env refSrc refTgt l s = (None, s') \<Longrightarrow>
     filter is_registry (trace s') =
       filter is_registry (trace s) @ map (\<lambda>d. EvBlobCopy refSrc refTgt (desc_Digest d) None) l"
proof (induction l arbitrary: s)
  case Nil
  then show ?case by simp
next
  case (Cons d l)
  then show ?case
    by (auto simp: call_eq split: prod.splits option.splits)
qed

lemma ImageCopy_layers_no_put:
  "ImageCopy_layers env refSrc refTgt l s = (r, s') \<Longrightarrow>
     filter is_ManifestPut (trace s') = filter is_ManifestPut (trace s)"
proof (induction l arbitrary: s)
  case Nil
  then show ?case by simp
next
  case (Cons d l)
  then show ?case
    by (auto simp: call_eq split: prod.splits option.splits)
qed

text \<open>
  C1.  In every run of \<open>ImageCopy\<close> in which a manifest is pushed at all, the registry
  calls of the run are exactly: the fetch of the source manifest, which succeeded; the
  copy of the config blob, which succeeded; the copy of every layer blob, in manifest
  order, each of which succeeded; and last the push of that same manifest to the
  destination.  So when the manifest fetch, the config copy or any layer copy fails,
  no manifest is pushed.
\<close>

theorem ImageCopy_push_only_after_all_copies:
  assumes run: "ImageCopy env refSrc refTgt (init w) = (res, s')"
    and put: "EvManifestPut r m' pres \<in> set (trace s')"
  shows "\<exists>m cd l. GetConfigDigest m = Inr cd \<and> GetLayers m = Inr l \<and> r = refTgt \<and> m' = m \<and>
           filter is_registry (trace s') =
             EvManifestGet refSrc (Inr m) # EvBlobCopy refSrc refTgt cd None #
             map (\<lambda>d. EvBlobCopy refSrc refTgt (desc_Digest d) None) l @
             [EvManifestPut refTgt m pres]"
proof -
  from put have nonempty: "filter is_ManifestPut (trace s') \<noteq> []"
    by (auto simp: filter_empty_conv intro!: bexI [of _ "EvManifestPut r m' pres"])
  obtain a s1 where c1: "call (\<lambda>w. ManifestGet env w refSrc) (EvManifestGet refSrc) (init w) = (a, s1)"
    by (cases "call (\<lambda>w. ManifestGet env w refSrc) (EvManifestGet refSrc) (init w)")
  then have t1: "trace s1 = [EvManifestGet refSrc a]"
    by (auto simp: call_eq init_def)
  show ?thesis
  proof (cases a)
    case (Inl err)
    with run c1 t1 nonempty show ?thesis
      by (auto simp: ImageCopy_def)
  next
    case (Inr m)
    note m = this
    show ?thesis
    proof (cases "GetConfigDigest m")
      case (Inl err)
      with run c1 t1 m nonempty show ?thesis
        by (auto simp: ImageCopy_def)
    next
      case (Inr cd)
      note cd = this
      obtain b s2 where c2: "call (\<lambda>w. BlobCopy env w refSrc refTgt cd) (EvBlobCopy refSrc refTgt cd)
                (log Info ''Copy config'' s1) = (b, s2)"
        by (cases "call (\<lambda>w. BlobCopy env w refSrc refTgt cd) (EvBlobCopy refSrc refTgt cd)
                (log Info ''Copy config'' s1)")
      then have t2: "trace s2 = [EvManifestGet refSrc a, EvLog Info ''Copy config'', EvBlobCopy refSrc refTgt cd b]"
        using t1 by (auto simp: call_eq)
      show ?thesis
      proof (cases b)
        case (Some err)
        with run c1 c2 t2 m cd nonempty show ?thesis
          by (auto simp: ImageCopy_def)
      next
        case None
        note b = this
        show ?thesis
        proof (cases "GetLayers m")
          case (Inl err)
          with run c1 c2 t2 m cd b nonempty show ?thesis
            by (auto simp: ImageCopy_def)
        next
          case (Inr l)
          note l = this
          obtain c s3 where c3: "ImageCopy_layers env refSrc refTgt l s2 = (c, s3)"
            by (cases "ImageCopy_layers env refSrc refTgt l s2")
          have np3: "filter is_ManifestPut (trace s3) = []"
            using ImageCopy_layers_no_put [OF c3] t2 by simp
          show ?thesis
          proof (cases c)
            case (Some err)
            with run c1 c2 c3 m cd b l have "s' = s3"
              by (auto simp: ImageCopy_def)
            with np3 nonempty show ?thesis by simp
          next
            case None
            have reg3: "filter is_registry (trace s3) =
                EvManifestGet refSrc (Inr m) # EvBlobCopy refSrc refTgt cd None #
                map (\<lambda>d. EvBlobCopy refSrc refTgt (desc_Digest d) None) l"
              using ImageCopy_layers_ok [OF c3 [unfolded None]] t2 m b by simp
            obtain p s4 where c4: "call (\<lambda>w. ManifestPut env w refTgt m) (EvManifestPut refTgt m) s3 = (p, s4)"
              by (cases "call (\<lambda>w. ManifestPut env w refTgt m) (EvManifestPut refTgt m) s3")
            then have t4: "trace s4 = trace s3 @ [EvManifestPut refTgt m p]"
              by (auto simp: call_eq)
            have ts': "trace s' = trace s4 \<or> trace s' = trace s4 @ [EvLog Warn ''Failed to push manifest'']"
              using run c1 c2 c3 c4 m cd b l None
              by (auto simp: ImageCopy_def split: option.splits)
            have inset: "EvManifestPut r m' pres \<in> set (trace s3) \<or> EvManifestPut r m' pres = EvManifestPut refTgt m p"
              using put ts' t4 by auto
            have "EvManifestPut r m' pres \<notin> set (trace s3)"
              using np3 by (auto simp: filter_empty_conv)
            with inset have eq: "r = refTgt" "m' = m" "pres = p" by auto
            from ts' t4 reg3 have "filter is_registry (trace s') =
                EvManifestGet refSrc (Inr m) # EvBlobCopy refSrc refTgt cd None #
                map (\<lambda>d. EvBlobCopy refSrc refTgt (desc_Digest d) None) l @ [EvManifestPut refTgt m p]"
              by auto
            with cd l eq show ?thesis by auto
          qed
        qed
      qed
    qed
  qed
qed

theorem ImageCopy_push_only_after_all_copies_witness:
  "EvManifestPut test_dst
     \<lparr>GetConfigDigest = Inr ''sha256:c0nfig'', GetLayers = Inr (map layer [''sha256:L1'', ''sha256:L2''])\<rparr>
     None \<in> set (trace (snd (ImageCopy test_env test_ref test_dst (init w_two)))) \<and>
   (\<exists>m cd l. GetConfigDigest m = Inr cd \<and> GetLayers m = Inr l \<and>
      filter is_registry (trace (snd (ImageCopy test_env test_ref test_dst (init w_two)))) =
        EvManifestGet test_ref (Inr m) # EvBlobCopy test_ref test_dst cd None #
        map (\<lambda>d. EvBlobCopy test_ref test_dst (desc_Digest d) None) l @
        [EvManifestPut test_dst m None])"
proof -
  have run: "ImageCopy test_env test_ref test_dst (init w_two) =
               (fst (ImageCopy test_env test_ref test_dst (init w_two)),
                snd (ImageCopy test_env test_ref test_dst (init w_two)))"
    by simp
  have put: "EvManifestPut test_dst
     \<lparr>GetConfigDigest = Inr ''sha256:c0nfig'', GetLayers = Inr (map layer [''sha256:L1'', ''sha256:L2''])\<rparr>
     None \<in> set (trace (snd (ImageCopy test_env test_ref test_dst (init w_two))))"
    by code_simp
  from ImageCopy_push_only_after_all_copies [OF run put] put show ?thesis
    by blast
qed

section \<open>Properties of ImageExport: exits\<close>

text \<open>
  C8.  When the reference has no common name, \<open>ImageExport\<close> returns \<^verbatim>\<open>ErrNotFound\<close>
  and the state is the one it started in: no call was made, so no manifest or blob was
  fetched.
\<close>

theorem ImageExport_empty_name_not_found:
  "CommonName env ref = [] \<Longrightarrow> ImageExport env ref s = (Return (Some ErrNotFound), s)"
  by (simp add: ImageExport_def)

theorem ImageExport_empty_name_not_found_witness:
  "CommonName test_env ref_unnamed = [] \<and>
   ImageExport test_env ref_unnamed (init w_two) = (Return (Some ErrNotFound), init w_two) \<and>
   trace (init w_two) = []"
proof -
  have name: "CommonName test_env ref_unnamed = []"
    by (simp add: test_env_def ref_unnamed_def)
  from ImageExport_empty_name_not_found [OF name, of "init w_two"] name show ?thesis
    by (simp add: init_def)
qed

lemma io_Copy_file_defers: "io_Copy_file env p r s = (e, s') \<Longrightarrow> defers s' = defers s"
  by (auto simp: io_Copy_file_def call_eq split: prod.splits option.splits)

lemma io_Copy_out_defers: "io_Copy_out env r s = (e, s') \<Longrightarrow> defers s' = defers s"
  by (auto simp: io_Copy_out_def Let_def split: prod.splits option.splits)

lemma ImageExport_config_defers:
  "ImageExport_config env ref m s = (r, s') \<Longrightarrow> defers s' = defers s"
  by (auto simp: ImageExport_config_def call_eq ReadAll_def Let_def
           split: prod.splits option.splits sum.splits if_splits)

lemma ImageExport_layer_defers:
  "ImageExport_layer env ref tempDir acc d s = (r, s') \<Longrightarrow> \<exists>cs. defers s' = cs @ defers s"
  by (auto simp: ImageExport_layer_def call_eq Let_def dest!: io_Copy_file_defers
           split: prod.splits option.splits sum.splits)

lemma ImageExport_layers_defers:
  "ImageExport_layers env ref tempDir acc l s = (r, s') \<Longrightarrow> \<exists>cs. defers s' = cs @ defers s"
proof (induction l arbitrary: acc s)
  case Nil
  then show ?case by simp
next
  case (Cons d l)
  obtain r1 s1 where l1: "ImageExport_layer env ref tempDir acc d s = (r1, s1)"
    by (cases "ImageExport_layer env ref tempDir acc d s")
  from ImageExport_layer_defers [OF l1] obtain cs1 where cs1: "defers s1 = cs1 @ defers s" ..
  show ?case
  proof (cases r1)
    case (Inl out)
    with Cons.prems l1 cs1 show ?thesis by auto
  next
    case (Inr acc')
    with Cons.prems l1 have "ImageExport_layers env ref tempDir acc' l s1 = (r, s')" by simp
    from Cons.IH [OF this] cs1 show ?thesis by auto
  qed
qed

lemma ImageExport_finish_defers:
  "ImageExport_finish env tempDir eM conf s = (r, s') \<Longrightarrow> \<exists>cs. defers s' = cs @ defers s"
  by (auto simp: ImageExport_finish_def call_eq Let_def dest!: io_Copy_out_defers
           split: prod.splits option.splits sum.splits)

lemma ImageExport_body_defers:
  assumes "ImageExport_body env ref m tempDir eM s = (r, s')"
  shows "\<exists>cs. defers s' = cs @ defers s"
proof -
  obtain r1 s1 where c: "ImageExport_config env ref m (log Debug ''Using temp directory for export'' s) = (r1, s1)"
    by (cases "ImageExport_config env ref m (log Debug ''Using temp directory for export'' s)")
  from ImageExport_config_defers [OF c] have d1: "defers s1 = defers s" by simp
  show ?thesis
  proof (cases r1)
    case (Inl out)
    with assms c d1 show ?thesis by (auto simp: ImageExport_body_def)
  next
    case (Inr conf)
    note conf = this
    show ?thesis
    proof (cases "GetLayers m")
      case (Inl err)
      with assms c d1 conf show ?thesis by (auto simp: ImageExport_body_def)
    next
      case (Inr l)
      note l = this
      obtain r2 s2 where ls: "ImageExport_layers env ref tempDir (eM, conf) l s1 = (r2, s2)"
        by (cases "ImageExport_layers env ref tempDir (eM, conf) l s1")
      from ImageExport_layers_defers [OF ls] d1 obtain cs2 where d2: "defers s2 = cs2 @ defers s" by auto
      show ?thesis
      proof (cases r2)
        case (Inl out)
        with assms c conf l ls d2 show ?thesis by (auto simp: ImageExport_body_def)
      next
        case (Inr acc)
        obtain eM' conf' where acc: "acc = (eM', conf')" by (cases acc)
        with assms c conf l ls Inr have "ImageExport_finish env tempDir eM' conf' s2 = (r, s')"
          by (auto simp: ImageExport_body_def)
        from ImageExport_finish_defers [OF this] d2 show ?thesis by auto
      qed
    qed
  qed
qed

lemma run_defers_append:
  "run_defers env (cs @ ds) s = run_defers env ds (run_defers env cs s)"
proof (induction cs arbitrary: s)
  case Nil
  then show ?case by simp
next
  case (Cons c cs)
  then show ?case by (cases c) simp_all
qed

text \<open>
  C7.  In every run of \<open>ImageExport\<close> that reaches the creation of the work directory
  (the reference has a name, the manifest is fetched, \<^verbatim>\<open>TempDir\<close> succeeds), whatever
  the outcome (a \<^verbatim>\<open>nil\<close> return, an error return or a panic), the last call of the run
  is \<^verbatim>\<open>os.RemoveAll\<close> on that directory, the final world is the one this call leaves,
  and no deferred call is left pending.
\<close>

theorem ImageExport_removes_work_directory:
  assumes name: "CommonName env ref \<noteq> []"
    and got: "ManifestGet env w ref = (Inr m, w1)"
    and made: "TempDir env w1 [] ''regcli-export-'' = (Inr tempDir, w2)"
  shows "\<exists>out s' w3 res. ImageExport env ref (init w) = (out, s') \<and>
           RemoveAll env w3 tempDir = (res, world s') \<and>
           last (trace s') = EvRemoveAll tempDir res \<and> defers s' = []"
proof -
  let ?s2 = "emit (EvTempDir [] ''regcli-export-'' (Inr tempDir))
               ((emit (EvManifestGet ref (Inr m)) ((init w)\<lparr>world := w1\<rparr>))\<lparr>world := w2\<rparr>)"
  let ?eM = "\<lparr>Config = [], RepoTags = [] @ [CommonName env ref], Layers = []\<rparr>"
  obtain out s3 where body: "ImageExport_body env ref m tempDir ?eM
             (?s2\<lparr>defers := DeferRemoveAll tempDir # defers ?s2\<rparr>) = (out, s3)"
    by (cases "ImageExport_body env ref m tempDir ?eM (?s2\<lparr>defers := DeferRemoveAll tempDir # defers ?s2\<rparr>)")
  from ImageExport_body_defers [OF body] obtain cs where
    cs: "defers s3 = cs @ [DeferRemoveAll tempDir]"
    by (auto simp: init_def)
  have run: "ImageExport env ref (init w) = (out, exit_defers env s3)"
    using name got made body by (simp add: ImageExport_def call_def init_def)
  let ?s4 = "run_defers env cs s3"
  obtain res w4 where rm: "RemoveAll env (world ?s4) tempDir = (res, w4)"
    by (cases "RemoveAll env (world ?s4) tempDir")
  have "exit_defers env s3 = (emit (EvRemoveAll tempDir res) (?s4\<lparr>world := w4\<rparr>))\<lparr>defers := []\<rparr>"
    using cs rm by (simp add: exit_defers_def run_defers_append call_def)
  with run rm show ?thesis by (auto simp: emit_def)
qed

theorem ImageExport_removes_work_directory_witness:
  "CommonName test_env test_ref \<noteq> [] \<and>
   ManifestGet test_env w_missing test_ref = (src_manifest w_missing, w_missing) \<and>
   fst (TempDir test_env w_missing [] ''regcli-export-'') = Inr ''/tmp/regcli-export-1'' \<and>
   fst (ImageExport test_env test_ref (init w_missing)) = Return (Some ErrNotFound) \<and>
   last (trace (snd (ImageExport test_env test_ref (init w_missing)))) =
     EvRemoveAll ''/tmp/regcli-export-1'' None"
proof -
  have name: "CommonName test_env test_ref \<noteq> []" by code_simp
  have got: "ManifestGet test_env w_missing test_ref =
               (Inr \<lparr>GetConfigDigest = Inr ''sha256:c0nfig'',
                     GetLayers = Inr (map layer [''sha256:L1'', ''sha256:L2''])\<rparr>, w_missing)"
    by code_simp
  have c2: "ManifestGet test_env w_missing test_ref = (src_manifest w_missing, w_missing)"
    by code_simp
  have c3: "fst (TempDir test_env w_missing [] ''regcli-export-'') = Inr ''/tmp/regcli-export-1''"
    by code_simp
  then have made: "TempDir test_env w_missing [] ''regcli-export-'' =
               (Inr ''/tmp/regcli-export-1'', snd (TempDir test_env w_missing [] ''regcli-export-''))"
    by (metis prod.collapse)
  have c4: "fst (ImageExport test_env test_ref (init w_missing)) = Return (Some ErrNotFound)"
    by code_simp
  have res: "fst (RemoveAll test_env w3 ''/tmp/regcli-export-1'') = None" for w3
    by (simp add: test_env_def c_RemoveAll_def)
  from ImageExport_removes_work_directory [OF name got made] res
  have c5: "last (trace (snd (ImageExport test_env test_ref (init w_missing)))) =
              EvRemoveAll ''/tmp/regcli-export-1'' None"
    by (metis fst_conv snd_conv)
  from name c2 c3 c4 c5 show ?thesis by blast
qed

text \<open>
  C3, at a run in which every step up to the packaging succeeds and the caller's
  stream fails after five bytes: \<open>ImageExport\<close> returns \<^verbatim>\<open>nil\<close>, the stream holds the
  first five bytes of the archive, and the error of the copy is in no return value.
\<close>

theorem ImageExport_drops_output_error:
  "fst (ImageExport test_env test_ref (init w_short)) = Return None \<and>
   sink (world (snd (ImageExport test_env test_ref (init w_short)))) = ''hAA/;'' \<and>
   EvCopyOut ''hAA/;'' (Some (Err ''short write''))
     \<in> set (trace (snd (ImageExport test_env test_ref (init w_short))))"
  by code_simp

section \<open>Properties of ImageExport: the successful path\<close>

lemma ImageExport_config_ok:
  assumes "ImageExport_config env ref m s = (Inr conf, s')"
  shows "\<exists>cd rc conf0. GetConfigDigest m = Inr cd \<and> rerr rc = None \<and>
           json_Unmarshal env (rdata rc) = Inr conf0 \<and> conf = conf0\<lparr>DiffIDs := []\<rparr> \<and>
           trace s' = trace s @ EvBlobGet ref cd config_types (Some rc, None) #
             (if cd \<noteq> FromBytes env (rdata rc)
              then [EvLog Warn ''Config digest mismatch'',
                    EvStderr (digest_warning cd (FromBytes env (rdata rc)))]
              else []) \<and>
           defers s' = defers s"
  using assms
  by (auto simp: ImageExport_config_def call_eq ReadAll_def Let_def config_types_def
           split: prod.splits option.splits sum.splits if_splits)

lemma ImageExport_layer_ok:
  assumes "ImageExport_layer env ref tempDir (eM, conf) d s = (Inr (eM', conf'), s')"
  shows "\<exists>layerDir r t created.
           DecompressStream env r = Inr t \<and> rerr t = None \<and> Created conf = Some created \<and>
           eM' = eM\<lparr>Layers := Layers eM @ [filepath_Join (sha256hex env (rdata t)) ''layer.tar'']\<rparr> \<and>
           conf' = conf\<lparr>DiffIDs := DiffIDs conf @ [FromBytes env (rdata t)]\<rparr> \<and>
           trace s' = trace s @
             [EvTempDir tempDir ''layer-*'' (Inr layerDir),
              EvBlobGet ref (desc_Digest d) [] (Some r, None),
              EvOpenFile (filepath_Join layerDir ''layer.tar'') None,
              EvCopyToFile (filepath_Join layerDir ''layer.tar'') (rdata t) None,
              EvCloseFile (filepath_Join layerDir ''layer.tar''),
              EvRename layerDir (filepath_Join tempDir (sha256hex env (rdata t))) None,
              EvChtimes (filepath_Join tempDir (filepath_Join (sha256hex env (rdata t)) ''layer.tar''))
                created created None]"
  using assms
  by (auto simp: ImageExport_layer_def io_Copy_file_def call_eq Let_def
           split: prod.splits option.splits sum.splits)

lemma ImageExport_finish_ok:
  assumes "ImageExport_finish env tempDir eM conf s = (Return None, s')"
  shows "\<exists>confstr mlj created fs delivered err.
           json_Marshal_Image env conf = Inr confstr \<and> Created conf = Some created \<and>
           json_Marshal_Manifests env [eM\<lparr>Config := sha256hex env confstr @ ''.json''\<rparr>] = Inr mlj \<and>
           trace s' = trace s @
             [EvWriteFile (filepath_Join tempDir (sha256hex env confstr @ ''.json'')) confstr None,
              EvChtimes (filepath_Join tempDir (sha256hex env confstr @ ''.json'')) created created None,
              EvWriteFile (filepath_Join tempDir ''manifest.json'') mlj None,
              EvChtimes (filepath_Join tempDir ''manifest.json'') 0 0 None,
              EvTar tempDir (Inr fs),
              EvCopyOut delivered err]"
  using assms
  by (auto simp: ImageExport_finish_def io_Copy_out_def call_eq Let_def
           split: prod.splits option.splits sum.splits)

lemma ImageExport_layers_ok:
  "ImageExport_layers env ref tempDir (eM, conf) l s = (Inr (eM', conf'), s') \<Longrightarrow>
     \<exists>rs ts evs.
       list_all2 (\<lambda>r t. DecompressStream env r = Inr t \<and> rerr t = None) rs ts \<and>
       length rs = length l \<and>
       eM' = eM\<lparr>Layers := Layers eM @ map (\<lambda>t. filepath_Join (sha256hex env (rdata t)) ''layer.tar'') ts\<rparr> \<and>
       conf' = conf\<lparr>DiffIDs := DiffIDs conf @ map (\<lambda>t. FromBytes env (rdata t)) ts\<rparr> \<and>
       trace s' = trace s @ evs \<and>
       filter is_registry evs = map2 (\<lambda>d r. EvBlobGet ref (desc_Digest d) [] (Some r, None)) l rs \<and>
       written evs = [] \<and>
       map Some (mtimes evs) = replicate (length l) (Created conf) \<and>
       (\<forall>e \<in> set evs. is_staging e \<or> is_registry e)"
proof (induction l arbitrary: eM conf s)
  case Nil
  then show ?case by (simp add: written_def mtimes_def)
next
  case (Cons d l)
  obtain r1 s1 where l1: "ImageExport_layer env ref tempDir (eM, conf) d s = (r1, s1)"
    by (cases "ImageExport_layer env ref tempDir (eM, conf) d s")
  show ?case
  proof (cases r1)
    case (Inl out)
    with Cons.prems l1 show ?thesis by simp
  next
    case (Inr acc)
    obtain eM1 conf1 where acc: "acc = (eM1, conf1)" by (cases acc)
    from l1 Inr acc have l1': "ImageExport_layer env ref tempDir (eM, conf) d s = (Inr (eM1, conf1), s1)"
      by simp
    from ImageExport_layer_ok [OF l1'] obtain layerDir r t created where
      t: "DecompressStream env r = Inr t" "rerr t = None" and
      created: "Created conf = Some created" and
      eM1: "eM1 = eM\<lparr>Layers := Layers eM @ [filepath_Join (sha256hex env (rdata t)) ''layer.tar'']\<rparr>" and
      conf1: "conf1 = conf\<lparr>DiffIDs := DiffIDs conf @ [FromBytes env (rdata t)]\<rparr>" and
      tr1: "trace s1 = trace s @
             [EvTempDir tempDir ''layer-*'' (Inr layerDir),
              EvBlobGet ref (desc_Digest d) [] (Some r, None),
              EvOpenFile (filepath_Join layerDir ''layer.tar'') None,
              EvCopyToFile (filepath_Join layerDir ''layer.tar'') (rdata t) None,
              EvCloseFile (filepath_Join layerDir ''layer.tar''),
              EvRename layerDir (filepath_Join tempDir (sha256hex env (rdata t))) None,
              EvChtimes (filepath_Join tempDir (filepath_Join (sha256hex env (rdata t)) ''layer.tar''))
                created created None]"
      by blast
    from Cons.prems l1' have rest: "ImageExport_layers env ref tempDir (eM1, conf1) l s1 = (Inr (eM', conf'), s')"
      by simp
    from Cons.IH [OF rest] obtain rs ts evs where
      all2: "list_all2 (\<lambda>r t. DecompressStream env r = Inr t \<and> rerr t = None) rs ts" and
      len: "length rs = length l" and
      eM': "eM' = eM1\<lparr>Layers := Layers eM1 @ map (\<lambda>t. filepath_Join (sha256hex env (rdata t)) ''layer.tar'') ts\<rparr>" and
      conf': "conf' = conf1\<lparr>DiffIDs := DiffIDs conf1 @ map (\<lambda>t. FromBytes env (rdata t)) ts\<rparr>" and
      tr: "trace s' = trace s1 @ evs" and
      reg: "filter is_registry evs = map2 (\<lambda>d r. EvBlobGet ref (desc_Digest d) [] (Some r, None)) l rs" and
      wr: "written evs = []" and
      mt: "map Some (mtimes evs) = replicate (length l) (Created conf1)" and
      st: "\<forall>e \<in> set evs. is_staging e \<or> is_registry e"
      by blast
    let ?evs1 = "[EvTempDir tempDir ''layer-*'' (Inr layerDir),
              EvBlobGet ref (desc_Digest d) [] (Some r, None),
              EvOpenFile (filepath_Join layerDir ''layer.tar'') None,
              EvCopyToFile (filepath_Join layerDir ''layer.tar'') (rdata t) None,
              EvCloseFile (filepath_Join layerDir ''layer.tar''),
              EvRename layerDir (filepath_Join tempDir (sha256hex env (rdata t))) None,
              EvChtimes (filepath_Join tempDir (filepath_Join (sha256hex env (rdata t)) ''layer.tar''))
                created created None]"
    show ?thesis
    proof (intro exI conjI)
      show "list_all2 (\<lambda>r t. DecompressStream env r = Inr t \<and> rerr t = None) (r # rs) (t # ts)"
        using all2 t by simp
      show "length (r # rs) = length (d # l)" using len by simp
      show "eM' = eM\<lparr>Layers := Layers eM @ map (\<lambda>t. filepath_Join (sha256hex env (rdata t)) ''layer.tar'') (t # ts)\<rparr>"
        using eM' eM1 by simp
      show "conf' = conf\<lparr>DiffIDs := DiffIDs conf @ map (\<lambda>t. FromBytes env (rdata t)) (t # ts)\<rparr>"
        using conf' conf1 by simp
      show "trace s' = trace s @ (?evs1 @ evs)" using tr tr1 by simp
      show "filter is_registry (?evs1 @ evs) =
              map2 (\<lambda>d r. EvBlobGet ref (desc_Digest d) [] (Some r, None)) (d # l) (r # rs)"
        using reg by simp
      show "written (?evs1 @ evs) = []" using wr by (simp add: written_def)
      show "map Some (mtimes (?evs1 @ evs)) = replicate (length (d # l)) (Created conf)"
        using mt conf1 created by (simp add: mtimes_def)
      show "\<forall>e \<in> set (?evs1 @ evs). is_staging e \<or> is_registry e" using st by auto
    qed
  qed
qed

lemma run_defers_trace:
  "\<exists>evs. trace (run_defers env ds s) = trace s @ evs \<and> (\<forall>e \<in> set evs. is_cleanup e)"
proof (induction ds arbitrary: s)
  case Nil
  then show ?case by simp
next
  case (Cons c ds)
  show ?case
  proof (cases c)
    case (DeferRemoveAll p)
    obtain res s1 where c1: "call (\<lambda>w. RemoveAll env w p) (EvRemoveAll p) s = (res, s1)"
      by (cases "call (\<lambda>w. RemoveAll env w p) (EvRemoveAll p) s")
    then have t1: "trace s1 = trace s @ [EvRemoveAll p res]" by (auto simp: call_eq)
    from Cons.IH [of s1] obtain evs where
      "trace (run_defers env ds s1) = trace s1 @ evs" "\<forall>e \<in> set evs. is_cleanup e" by blast
    with t1 c1 DeferRemoveAll show ?thesis
      by (intro exI [of _ "EvRemoveAll p res # evs"]) simp
  next
    case (DeferClose r)
    from Cons.IH [of "emit (EvClose r) s"] obtain evs where
      "trace (run_defers env ds (emit (EvClose r) s)) = trace (emit (EvClose r) s) @ evs"
      "\<forall>e \<in> set evs. is_cleanup e" by blast
    with DeferClose show ?thesis
      by (intro exI [of _ "EvClose r # evs"]) simp
  qed
qed

lemma exit_defers_trace:
  "\<exists>evs. trace (exit_defers env s) = trace s @ evs \<and> (\<forall>e \<in> set evs. is_cleanup e)"
  using run_defers_trace [of env "defers s" s] by (simp add: exit_defers_def)

lemma ImageExport_config_exit:
  "ImageExport_config env ref m s = (Inl out, s') \<Longrightarrow> out \<noteq> Return None"
  by (auto simp: ImageExport_config_def call_eq ReadAll_def Let_def
           split: prod.splits option.splits sum.splits if_splits)

lemma ImageExport_layer_exit:
  "ImageExport_layer env ref tempDir acc d s = (Inl out, s') \<Longrightarrow> out \<noteq> Return None"
  by (auto simp: ImageExport_layer_def io_Copy_file_def call_eq Let_def
           split: prod.splits option.splits sum.splits)

lemma ImageExport_layers_exit:
  "ImageExport_layers env ref tempDir acc l s = (Inl out, s') \<Longrightarrow> out \<noteq> Return None"
proof (induction l arbitrary: acc s)
  case Nil
  then show ?case by simp
next
  case (Cons d l)
  then show ?case
    by (auto split: prod.splits sum.splits dest: ImageExport_layer_exit)
qed

lemma ImageExport_success_stages:
  assumes run: "ImageExport env ref (init w) = (Return None, s')"
  shows "\<exists>m tempDir conf l eM' conf' s0 s1 s2 s3.
           CommonName env ref \<noteq> [] \<and>
           trace s0 = [EvManifestGet ref (Inr m), EvTempDir [] ''regcli-export-'' (Inr tempDir),
                       EvLog Debug ''Using temp directory for export''] \<and>
           ImageExport_config env ref m s0 = (Inr conf, s1) \<and>
           GetLayers m = Inr l \<and>
           ImageExport_layers env ref tempDir
             (\<lparr>Config = [], RepoTags = [CommonName env ref], Layers = []\<rparr>, conf) l s1 = (Inr (eM', conf'), s2) \<and>
           ImageExport_finish env tempDir eM' conf' s2 = (Return None, s3) \<and>
           s' = exit_defers env s3"
proof -
  from run have name: "CommonName env ref \<noteq> []"
    by (auto simp: ImageExport_def)
  let ?eM = "\<lparr>Config = [], RepoTags = [CommonName env ref], Layers = []\<rparr>"
  from run name obtain m w1 tempDir w2 sb s3 where
    got: "ManifestGet env w ref = (Inr m, w1)" and
    made: "TempDir env w1 [] ''regcli-export-'' = (Inr tempDir, w2)" and
    sb: "sb = \<lparr>world = w2, trace = [EvManifestGet ref (Inr m), EvTempDir [] ''regcli-export-'' (Inr tempDir)],
               defers = [DeferRemoveAll tempDir]\<rparr>" and
    body: "ImageExport_body env ref m tempDir ?eM sb = (Return None, s3)" and
    s': "s' = exit_defers env s3"
    by (auto simp: ImageExport_def call_eq init_def emit_def split: prod.splits sum.splits)
  let ?s0 = "log Debug ''Using temp directory for export'' sb"
  obtain rc s1 where c: "ImageExport_config env ref m ?s0 = (rc, s1)"
    by (cases "ImageExport_config env ref m ?s0")
  from body c ImageExport_config_exit [of env ref m ?s0 _ s1] obtain conf where
    conf: "rc = Inr conf"
    by (cases rc) (auto simp: ImageExport_body_def)
  from body c conf obtain l where l: "GetLayers m = Inr l"
    by (cases "GetLayers m") (auto simp: ImageExport_body_def)
  obtain rl s2 where ls: "ImageExport_layers env ref tempDir (?eM, conf) l s1 = (rl, s2)"
    by (cases "ImageExport_layers env ref tempDir (?eM, conf) l s1")
  from body c conf l ls ImageExport_layers_exit [of env ref tempDir "(?eM, conf)" l s1 _ s2]
  obtain eM' conf' where acc: "rl = Inr (eM', conf')"
    by (cases rl) (auto simp: ImageExport_body_def)
  from body c conf l ls acc have fin: "ImageExport_finish env tempDir eM' conf' s2 = (Return None, s3)"
    by (simp add: ImageExport_body_def)
  have t0: "trace ?s0 = [EvManifestGet ref (Inr m), EvTempDir [] ''regcli-export-'' (Inr tempDir),
                       EvLog Debug ''Using temp directory for export'']"
    by (simp add: sb)
  from name t0 c conf l ls acc fin s' show ?thesis by blast
qed

lemma cleanup_views:
  assumes "\<forall>e \<in> set evs. is_cleanup e"
  shows "filter is_registry evs = []" and "written evs = []" and "mtimes evs = []"
    and "\<forall>e \<in> set evs. \<not> is_staging e"
proof -
  have a: "is_cleanup e \<Longrightarrow> \<not> is_registry e \<and> written_of e = [] \<and> mtime_of e = [] \<and> \<not> is_staging e" for e
    by (cases e) simp_all
  with assms show "filter is_registry evs = []" by (auto simp: filter_empty_conv)
  from a assms show "written evs = []" by (induction evs) (auto simp: written_def)
  from a assms show "mtimes evs = []" by (induction evs) (auto simp: mtimes_def)
  from a assms show "\<forall>e \<in> set evs. \<not> is_staging e" by blast
qed

lemma written_append [simp]: "written (xs @ ys) = written xs @ written ys"
  by (simp add: written_def)

lemma mtimes_append [simp]: "mtimes (xs @ ys) = mtimes xs @ mtimes ys"
  by (simp add: mtimes_def)

lemma written_Cons [simp]: "written (e # xs) = written_of e @ written xs"
  by (simp add: written_def)

lemma mtimes_Cons [simp]: "mtimes (e # xs) = mtime_of e @ mtimes xs"
  by (simp add: mtimes_def)

lemma written_Nil [simp]: "written [] = []"
  by (simp add: written_def)

lemma mtimes_Nil [simp]: "mtimes [] = []"
  by (simp add: mtimes_def)

lemma map_Some_replicate:
  assumes "map Some xs = replicate n (Some c)"
  shows "xs = replicate n c"
proof -
  from assms have "map Some xs = map Some (replicate n c)"
    by (simp only: map_replicate)
  then show ?thesis
    by (simp only: inj_map_eq_map [OF inj_Some])
qed

lemma ImageExport_success_summary:
  assumes run: "ImageExport env ref (init w) = (Return None, s')"
  shows "\<exists>m cd rc conf0 l rs ts created confstr mlj tempDir.
      CommonName env ref \<noteq> [] \<and> GetConfigDigest m = Inr cd \<and> GetLayers m = Inr l \<and>
      rerr rc = None \<and> json_Unmarshal env (rdata rc) = Inr conf0 \<and> Created conf0 = Some created \<and>
      length rs = length l \<and>
      list_all2 (\<lambda>r t. DecompressStream env r = Inr t \<and> rerr t = None) rs ts \<and>
      json_Marshal_Image env (conf0\<lparr>DiffIDs := map (\<lambda>t. FromBytes env (rdata t)) ts\<rparr>) = Inr confstr \<and>
      json_Marshal_Manifests env
        [\<lparr>Config = sha256hex env confstr @ ''.json'', RepoTags = [CommonName env ref],
          Layers = map (\<lambda>t. filepath_Join (sha256hex env (rdata t)) ''layer.tar'') ts\<rparr>] = Inr mlj \<and>
      filter is_registry (trace s') =
        EvManifestGet ref (Inr m) # EvBlobGet ref cd config_types (Some rc, None) #
        map2 (\<lambda>d r. EvBlobGet ref (desc_Digest d) [] (Some r, None)) l rs \<and>
      written (trace s') =
        [(filepath_Join tempDir (sha256hex env confstr @ ''.json''), confstr),
         (filepath_Join tempDir ''manifest.json'', mlj)] \<and>
      mtimes (trace s') = replicate (length l) created @ [created, 0] \<and>
      EvTempDir [] ''regcli-export-'' (Inr tempDir) \<in> set (trace s') \<and>
      (cd \<noteq> FromBytes env (rdata rc) \<longrightarrow>
         EvLog Warn ''Config digest mismatch'' \<in> set (trace s') \<and>
         EvStderr (digest_warning cd (FromBytes env (rdata rc))) \<in> set (trace s'))"
proof -
  let ?eM = "\<lparr>Config = [], RepoTags = [CommonName env ref], Layers = []\<rparr>"
  from ImageExport_success_stages [OF run] obtain m tempDir conf l eM' conf' s0 s1 s2 s3 where
    name: "CommonName env ref \<noteq> []" and
    t0: "trace s0 = [EvManifestGet ref (Inr m), EvTempDir [] ''regcli-export-'' (Inr tempDir),
                     EvLog Debug ''Using temp directory for export'']" and
    c: "ImageExport_config env ref m s0 = (Inr conf, s1)" and
    l: "GetLayers m = Inr l" and
    ls: "ImageExport_layers env ref tempDir (?eM, conf) l s1 = (Inr (eM', conf'), s2)" and
    fin: "ImageExport_finish env tempDir eM' conf' s2 = (Return None, s3)" and
    s': "s' = exit_defers env s3"
    by blast
  from ImageExport_config_ok [OF c] obtain cd rc conf0 where
    cd: "GetConfigDigest m = Inr cd" and rc: "rerr rc = None" and
    conf0: "json_Unmarshal env (rdata rc) = Inr conf0" and conf: "conf = conf0\<lparr>DiffIDs := []\<rparr>" and
    t1: "trace s1 = trace s0 @ EvBlobGet ref cd config_types (Some rc, None) #
             (if cd \<noteq> FromBytes env (rdata rc)
              then [EvLog Warn ''Config digest mismatch'',
                    EvStderr (digest_warning cd (FromBytes env (rdata rc)))]
              else [])"
    by blast
  from ImageExport_layers_ok [OF ls] obtain rs ts evsL where
    all2: "list_all2 (\<lambda>r t. DecompressStream env r = Inr t \<and> rerr t = None) rs ts" and
    len: "length rs = length l" and
    eM': "eM' = ?eM\<lparr>Layers := Layers ?eM @ map (\<lambda>t. filepath_Join (sha256hex env (rdata t)) ''layer.tar'') ts\<rparr>" and
    conf': "conf' = conf\<lparr>DiffIDs := DiffIDs conf @ map (\<lambda>t. FromBytes env (rdata t)) ts\<rparr>" and
    t2: "trace s2 = trace s1 @ evsL" and
    regL: "filter is_registry evsL = map2 (\<lambda>d r. EvBlobGet ref (desc_Digest d) [] (Some r, None)) l rs" and
    wrL: "written evsL = []" and
    mtL: "map Some (mtimes evsL) = replicate (length l) (Created conf)"
    by blast
  from ImageExport_finish_ok [OF fin] obtain confstr mlj created fs delivered err where
    confstr: "json_Marshal_Image env conf' = Inr confstr" and
    created: "Created conf' = Some created" and
    mlj: "json_Marshal_Manifests env [eM'\<lparr>Config := sha256hex env confstr @ ''.json''\<rparr>] = Inr mlj" and
    t3: "trace s3 = trace s2 @
             [EvWriteFile (filepath_Join tempDir (sha256hex env confstr @ ''.json'')) confstr None,
              EvChtimes (filepath_Join tempDir (sha256hex env confstr @ ''.json'')) created created None,
              EvWriteFile (filepath_Join tempDir ''manifest.json'') mlj None,
              EvChtimes (filepath_Join tempDir ''manifest.json'') 0 0 None,
              EvTar tempDir (Inr fs),
              EvCopyOut delivered err]"
    by blast
  from exit_defers_trace [of env s3] s' obtain evsX where
    t4: "trace s' = trace s3 @ evsX" and clean: "\<forall>e \<in> set evsX. is_cleanup e"
    by blast
  note cx = cleanup_views [OF clean]
  have created0: "Created conf0 = Some created"
    using created conf' conf by simp
  then have "map Some (mtimes evsL) = replicate (length l) (Some created)"
    using mtL conf by simp
  then have mtL': "mtimes evsL = replicate (length l) created"
    by (rule map_Some_replicate)
  have conf'': "conf' = conf0\<lparr>DiffIDs := map (\<lambda>t. FromBytes env (rdata t)) ts\<rparr>"
    using conf' conf by simp
  have eM'': "eM'\<lparr>Config := sha256hex env confstr @ ''.json''\<rparr> =
        \<lparr>Config = sha256hex env confstr @ ''.json'', RepoTags = [CommonName env ref],
          Layers = map (\<lambda>t. filepath_Join (sha256hex env (rdata t)) ''layer.tar'') ts\<rparr>"
    using eM' by simp
  have reg: "filter is_registry (trace s') =
        EvManifestGet ref (Inr m) # EvBlobGet ref cd config_types (Some rc, None) #
        map2 (\<lambda>d r. EvBlobGet ref (desc_Digest d) [] (Some r, None)) l rs"
    using t0 t1 t2 t3 t4 regL cx(1) by simp
  have wr: "written (trace s') =
        [(filepath_Join tempDir (sha256hex env confstr @ ''.json''), confstr),
         (filepath_Join tempDir ''manifest.json'', mlj)]"
    using t0 t1 t2 t3 t4 wrL cx(2) by simp
  have mt: "mtimes (trace s') = replicate (length l) created @ [created, 0]"
    using t0 t1 t2 t3 t4 mtL' cx(3) by simp
  have td: "EvTempDir [] ''regcli-export-'' (Inr tempDir) \<in> set (trace s')"
    using t0 t1 t2 t3 t4 by simp
  have warn: "cd \<noteq> FromBytes env (rdata rc) \<longrightarrow>
         EvLog Warn ''Config digest mismatch'' \<in> set (trace s') \<and>
         EvStderr (digest_warning cd (FromBytes env (rdata rc))) \<in> set (trace s')"
    using t0 t1 t2 t3 t4 by simp
  from name cd l rc conf0 created0 len all2 confstr [unfolded conf''] mlj [unfolded eM''] reg wr mt td warn
  show ?thesis by blast
qed

section \<open>Properties of ImageExport: what a successful run writes\<close>

lemma map2_BlobGet_inj:
  assumes "length rs = length l" and "length rs' = length l"
    and "map2 (\<lambda>d r. EvBlobGet ref (desc_Digest d) [] (Some r, None)) l rs =
         map2 (\<lambda>d r. EvBlobGet ref (desc_Digest d) [] (Some r, None)) l rs'"
  shows "rs = rs'"
  using assms
proof (induction l arbitrary: rs rs')
  case Nil
  then show ?case by simp
next
  case (Cons d l)
  then show ?case by (cases rs; cases rs') auto
qed

lemma decompressed_unique:
  assumes "list_all2 (\<lambda>r t. DecompressStream env r = Inr t \<and> rerr t = None) rs ts"
    and "list_all2 (\<lambda>r t. DecompressStream env r = Inr t \<and> rerr t = None) rs ts'"
  shows "ts = ts'"
  using assms
proof (induction rs arbitrary: ts ts')
  case Nil
  then show ?case by simp
next
  case (Cons r rs)
  then show ?case by (cases ts; cases ts') auto
qed

text \<open>
  C2.  In every run of \<open>ImageExport\<close> that returns \<^verbatim>\<open>nil\<close>, with \<open>l\<close> the layers of the
  manifest fetched: the layer blobs were fetched one by one in the order of \<open>l\<close>; each
  was decompressed into a stream that ended cleanly; the configuration written has one
  diff ID per layer, the digest (\<open>sha256:\<close> and the hexadecimal SHA-256) of that
  layer's decompressed bytes, in the same order; and the manifest entry written has one
  path per layer, the hexadecimal part of that diff ID followed by \<^verbatim>\<open>/layer.tar\<close>, in the
  same order.  The digest under which a layer was fetched plays no part.
\<close>

theorem ImageExport_rebuilds_diff_ids:
  assumes run: "ImageExport env ref (init w) = (Return None, s')"
  shows "\<exists>m cd rc l rs ts conf eM confstr mlj tempDir.
      GetLayers m = Inr l \<and>
      filter is_registry (trace s') =
        EvManifestGet ref (Inr m) # EvBlobGet ref cd config_types (Some rc, None) #
        map2 (\<lambda>d r. EvBlobGet ref (desc_Digest d) [] (Some r, None)) l rs \<and>
      length rs = length l \<and>
      list_all2 (\<lambda>r t. DecompressStream env r = Inr t \<and> rerr t = None) rs ts \<and>
      DiffIDs conf = map (\<lambda>t. FromBytes env (rdata t)) ts \<and>
      Layers eM = map (\<lambda>t. if sha256hex env (rdata t) = [] then ''layer.tar''
                             else sha256hex env (rdata t) @ ''/layer.tar'') ts \<and>
      length (DiffIDs conf) = length l \<and> length (Layers eM) = length l \<and>
      json_Marshal_Image env conf = Inr confstr \<and>
      json_Marshal_Manifests env [eM] = Inr mlj \<and>
      written (trace s') =
        [(filepath_Join tempDir (sha256hex env confstr @ ''.json''), confstr),
         (filepath_Join tempDir ''manifest.json'', mlj)]"
proof -
  from ImageExport_success_summary [OF run] obtain m cd rc conf0 l rs ts confstr mlj tempDir where
    l: "GetLayers m = Inr l" and
    len: "length rs = length l" and
    all2: "list_all2 (\<lambda>r t. DecompressStream env r = Inr t \<and> rerr t = None) rs ts" and
    confstr: "json_Marshal_Image env (conf0\<lparr>DiffIDs := map (\<lambda>t. FromBytes env (rdata t)) ts\<rparr>) = Inr confstr" and
    mlj: "json_Marshal_Manifests env
        [\<lparr>Config = sha256hex env confstr @ ''.json'', RepoTags = [CommonName env ref],
          Layers = map (\<lambda>t. filepath_Join (sha256hex env (rdata t)) ''layer.tar'') ts\<rparr>] = Inr mlj" and
    reg: "filter is_registry (trace s') =
        EvManifestGet ref (Inr m) # EvBlobGet ref cd config_types (Some rc, None) #
        map2 (\<lambda>d r. EvBlobGet ref (desc_Digest d) [] (Some r, None)) l rs" and
    wr: "written (trace s') =
        [(filepath_Join tempDir (sha256hex env confstr @ ''.json''), confstr),
         (filepath_Join tempDir ''manifest.json'', mlj)]"
    by blast
  let ?conf = "conf0\<lparr>DiffIDs := map (\<lambda>t. FromBytes env (rdata t)) ts\<rparr>"
  let ?eM = "\<lparr>Config = sha256hex env confstr @ ''.json'', RepoTags = [CommonName env ref],
          Layers = map (\<lambda>t. filepath_Join (sha256hex env (rdata t)) ''layer.tar'') ts\<rparr>"
  from all2 have lents: "length ts = length rs"
    by (simp add: list_all2_lengthD)
  have d: "DiffIDs ?conf = map (\<lambda>t. FromBytes env (rdata t)) ts" by simp
  have ly: "Layers ?eM = map (\<lambda>t. if sha256hex env (rdata t) = [] then ''layer.tar''
                             else sha256hex env (rdata t) @ ''/layer.tar'') ts"
    by (simp add: filepath_Join_def)
  have n1: "length (DiffIDs ?conf) = length l" using lents len by simp
  have n2: "length (Layers ?eM) = length l" using lents len by simp
  from l reg len all2 d ly n1 n2 confstr mlj wr show ?thesis by blast
qed

theorem ImageExport_rebuilds_diff_ids_witness:
  "fst (ImageExport test_env test_ref (init w_two)) = Return None \<and>
   written (trace (snd (ImageExport test_env test_ref (init w_two)))) =
     [(''/tmp/regcli-export-1/h{created:T,diff_ids:[sha256:hAA,sha256:hBB,],{T}}.json'',
       ''{created:T,diff_ids:[sha256:hAA,sha256:hBB,],{T}}''),
      (''/tmp/regcli-export-1/manifest.json'',
       ''[{Config:h{created:T,diff_ids:[sha256:hAA,sha256:hBB,],{T}}.json,RepoTags:[reg/app,],Layers:[hAA/layer.tar,hBB/layer.tar,]}]'')] \<and>
   (\<exists>m cd rc l rs ts conf eM confstr mlj tempDir.
      GetLayers m = Inr l \<and>
      filter is_registry (trace (snd (ImageExport test_env test_ref (init w_two)))) =
        EvManifestGet test_ref (Inr m) # EvBlobGet test_ref cd config_types (Some rc, None) #
        map2 (\<lambda>d r. EvBlobGet test_ref (desc_Digest d) [] (Some r, None)) l rs \<and>
      length rs = length l \<and>
      list_all2 (\<lambda>r t. DecompressStream test_env r = Inr t \<and> rerr t = None) rs ts \<and>
      DiffIDs conf = map (\<lambda>t. FromBytes test_env (rdata t)) ts \<and>
      Layers eM = map (\<lambda>t. if sha256hex test_env (rdata t) = [] then ''layer.tar''
                             else sha256hex test_env (rdata t) @ ''/layer.tar'') ts \<and>
      length (DiffIDs conf) = length l \<and> length (Layers eM) = length l \<and>
      json_Marshal_Image test_env conf = Inr confstr \<and>
      json_Marshal_Manifests test_env [eM] = Inr mlj \<and>
      written (trace (snd (ImageExport test_env test_ref (init w_two)))) =
        [(filepath_Join tempDir (sha256hex test_env confstr @ ''.json''), confstr),
         (filepath_Join tempDir ''manifest.json'', mlj)])"
proof -
  have ok: "fst (ImageExport test_env test_ref (init w_two)) = Return None"
    by code_simp
  then have run: "ImageExport test_env test_ref (init w_two) =
               (Return None, snd (ImageExport test_env test_ref (init w_two)))"
    by (metis prod.collapse)
  have wr: "written (trace (snd (ImageExport test_env test_ref (init w_two)))) =
     [(''/tmp/regcli-export-1/h{created:T,diff_ids:[sha256:hAA,sha256:hBB,],{T}}.json'',
       ''{created:T,diff_ids:[sha256:hAA,sha256:hBB,],{T}}''),
      (''/tmp/regcli-export-1/manifest.json'',
       ''[{Config:h{created:T,diff_ids:[sha256:hAA,sha256:hBB,],{T}}.json,RepoTags:[reg/app,],Layers:[hAA/layer.tar,hBB/layer.tar,]}]'')]"
    by code_simp
  from ok wr ImageExport_rebuilds_diff_ids [OF run] show ?thesis
    by blast
qed

text \<open>
  C6.  Two runs of \<open>ImageExport\<close> on the same reference that both return \<^verbatim>\<open>nil\<close> and
  saw the same registry calls with the same answers, in any two worlds (other temporary
  names, another clock, another file system): both serialise one and the same
  configuration (so the same diff IDs) to the same bytes, under the same digest-derived
  file name, and one and the same manifest entry to the same \<^verbatim>\<open>manifest.json\<close> bytes, and
  set the same modification times.  The two work directories are all that differs in
  what they write.
\<close>

theorem ImageExport_deterministic:
  assumes run1: "ImageExport env ref (init w1) = (Return None, s1)"
    and run2: "ImageExport env ref (init w2) = (Return None, s2)"
    and same: "filter is_registry (trace s1) = filter is_registry (trace s2)"
  shows "\<exists>conf eM confstr mlj t1 t2.
      json_Marshal_Image env conf = Inr confstr \<and>
      json_Marshal_Manifests env [eM] = Inr mlj \<and>
      Config eM = sha256hex env confstr @ ''.json'' \<and>
      EvTempDir [] ''regcli-export-'' (Inr t1) \<in> set (trace s1) \<and>
      EvTempDir [] ''regcli-export-'' (Inr t2) \<in> set (trace s2) \<and>
      written (trace s1) = [(filepath_Join t1 (Config eM), confstr), (filepath_Join t1 ''manifest.json'', mlj)] \<and>
      written (trace s2) = [(filepath_Join t2 (Config eM), confstr), (filepath_Join t2 ''manifest.json'', mlj)] \<and>
      mtimes (trace s1) = mtimes (trace s2)"
proof -
  from ImageExport_success_summary [OF run1] obtain m cd rc conf0 l rs ts created confstr mlj t1 where
    l: "GetLayers m = Inr l" and
    conf0: "json_Unmarshal env (rdata rc) = Inr conf0" and
    created: "Created conf0 = Some created" and
    len: "length rs = length l" and
    all2: "list_all2 (\<lambda>r t. DecompressStream env r = Inr t \<and> rerr t = None) rs ts" and
    confstr: "json_Marshal_Image env (conf0\<lparr>DiffIDs := map (\<lambda>t. FromBytes env (rdata t)) ts\<rparr>) = Inr confstr" and
    mlj: "json_Marshal_Manifests env
        [\<lparr>Config = sha256hex env confstr @ ''.json'', RepoTags = [CommonName env ref],
          Layers = map (\<lambda>t. filepath_Join (sha256hex env (rdata t)) ''layer.tar'') ts\<rparr>] = Inr mlj" and
    reg: "filter is_registry (trace s1) =
        EvManifestGet ref (Inr m) # EvBlobGet ref cd config_types (Some rc, None) #
        map2 (\<lambda>d r. EvBlobGet ref (desc_Digest d) [] (Some r, None)) l rs" and
    wr: "written (trace s1) =
        [(filepath_Join t1 (sha256hex env confstr @ ''.json''), confstr),
         (filepath_Join t1 ''manifest.json'', mlj)]" and
    mt: "mtimes (trace s1) = replicate (length l) created @ [created, 0]" and
    td: "EvTempDir [] ''regcli-export-'' (Inr t1) \<in> set (trace s1)"
    by blast
  from ImageExport_success_summary [OF run2] obtain m' cd' rc' conf0' l' rs' ts' created' confstr' mlj' t2 where
    l': "GetLayers m' = Inr l'" and
    conf0': "json_Unmarshal env (rdata rc') = Inr conf0'" and
    created': "Created conf0' = Some created'" and
    len': "length rs' = length l'" and
    all2': "list_all2 (\<lambda>r t. DecompressStream env r = Inr t \<and> rerr t = None) rs' ts'" and
    confstr': "json_Marshal_Image env (conf0'\<lparr>DiffIDs := map (\<lambda>t. FromBytes env (rdata t)) ts'\<rparr>) = Inr confstr'" and
    mlj': "json_Marshal_Manifests env
        [\<lparr>Config = sha256hex env confstr' @ ''.json'', RepoTags = [CommonName env ref],
          Layers = map (\<lambda>t. filepath_Join (sha256hex env (rdata t)) ''layer.tar'') ts'\<rparr>] = Inr mlj'" and
    reg': "filter is_registry (trace s2) =
        EvManifestGet ref (Inr m') # EvBlobGet ref cd' config_types (Some rc', None) #
        map2 (\<lambda>d r. EvBlobGet ref (desc_Digest d) [] (Some r, None)) l' rs'" and
    wr': "written (trace s2) =
        [(filepath_Join t2 (sha256hex env confstr' @ ''.json''), confstr'),
         (filepath_Join t2 ''manifest.json'', mlj')]" and
    mt': "mtimes (trace s2) = replicate (length l') created' @ [created', 0]" and
    td': "EvTempDir [] ''regcli-export-'' (Inr t2) \<in> set (trace s2)"
    by blast
  from same reg reg' have m: "m' = m" and rc: "rc' = rc"
    and maps: "map2 (\<lambda>d r. EvBlobGet ref (desc_Digest d) [] (Some r, None)) l rs =
               map2 (\<lambda>d r. EvBlobGet ref (desc_Digest d) [] (Some r, None)) l' rs'"
    by simp_all
  from m l l' have ll: "l' = l" by simp
  from map2_BlobGet_inj [OF len len' [unfolded ll] maps [unfolded ll]] have rr: "rs' = rs" by simp
  from decompressed_unique [OF all2 all2' [unfolded rr]] have tt: "ts' = ts" by simp
  from conf0 conf0' rc have cc: "conf0' = conf0" by simp
  from created created' cc have cr: "created' = created" by simp
  from confstr confstr' cc tt have cs: "confstr' = confstr" by simp
  from mlj mlj' cs tt have mm: "mlj' = mlj" by simp
  let ?eM = "\<lparr>Config = sha256hex env confstr @ ''.json'', RepoTags = [CommonName env ref],
          Layers = map (\<lambda>t. filepath_Join (sha256hex env (rdata t)) ''layer.tar'') ts\<rparr>"
  have cfg: "Config ?eM = sha256hex env confstr @ ''.json''" by simp
  have w1: "written (trace s1) = [(filepath_Join t1 (Config ?eM), confstr), (filepath_Join t1 ''manifest.json'', mlj)]"
    using wr by simp
  have w2: "written (trace s2) = [(filepath_Join t2 (Config ?eM), confstr), (filepath_Join t2 ''manifest.json'', mlj)]"
    using wr' cs mm by simp
  have mts: "mtimes (trace s1) = mtimes (trace s2)"
    using mt mt' ll cr by simp
  from confstr mlj cfg td td' w1 w2 mts show ?thesis by blast
qed

theorem ImageExport_deterministic_witness:
  "fst (ImageExport test_env test_ref (init w_two)) = Return None \<and>
   fst (ImageExport test_env test_ref (init w_two_later)) = Return None \<and>
   filter is_registry (trace (snd (ImageExport test_env test_ref (init w_two)))) =
   filter is_registry (trace (snd (ImageExport test_env test_ref (init w_two_later)))) \<and>
   EvTempDir [] ''regcli-export-'' (Inr ''/tmp/regcli-export-1'')
     \<in> set (trace (snd (ImageExport test_env test_ref (init w_two)))) \<and>
   EvTempDir [] ''regcli-export-'' (Inr ''/tmp/regcli-export-x'')
     \<in> set (trace (snd (ImageExport test_env test_ref (init w_two_later)))) \<and>
   (\<exists>conf eM confstr mlj t1 t2.
      json_Marshal_Image test_env conf = Inr confstr \<and>
      json_Marshal_Manifests test_env [eM] = Inr mlj \<and>
      Config eM = sha256hex test_env confstr @ ''.json'' \<and>
      EvTempDir [] ''regcli-export-'' (Inr t1) \<in> set (trace (snd (ImageExport test_env test_ref (init w_two)))) \<and>
      EvTempDir [] ''regcli-export-'' (Inr t2) \<in> set (trace (snd (ImageExport test_env test_ref (init w_two_later)))) \<and>
      written (trace (snd (ImageExport test_env test_ref (init w_two)))) =
        [(filepath_Join t1 (Config eM), confstr), (filepath_Join t1 ''manifest.json'', mlj)] \<and>
      written (trace (snd (ImageExport test_env test_ref (init w_two_later)))) =
        [(filepath_Join t2 (Config eM), confstr), (filepath_Join t2 ''manifest.json'', mlj)] \<and>
      mtimes (trace (snd (ImageExport test_env test_ref (init w_two)))) =
      mtimes (trace (snd (ImageExport test_env test_ref (init w_two_later)))))"
proof -
  have ok1: "fst (ImageExport test_env test_ref (init w_two)) = Return None"
    by code_simp
  then have run1: "ImageExport test_env test_ref (init w_two) =
               (Return None, snd (ImageExport test_env test_ref (init w_two)))"
    by (metis prod.collapse)
  have ok2: "fst (ImageExport test_env test_ref (init w_two_later)) = Return None"
    by code_simp
  then have run2: "ImageExport test_env test_ref (init w_two_later) =
               (Return None, snd (ImageExport test_env test_ref (init w_two_later)))"
    by (metis prod.collapse)
  have same: "filter is_registry (trace (snd (ImageExport test_env test_ref (init w_two)))) =
              filter is_registry (trace (snd (ImageExport test_env test_ref (init w_two_later))))"
    by code_simp
  have d1: "EvTempDir [] ''regcli-export-'' (Inr ''/tmp/regcli-export-1'')
     \<in> set (trace (snd (ImageExport test_env test_ref (init w_two))))"
    by code_simp
  have d2: "EvTempDir [] ''regcli-export-'' (Inr ''/tmp/regcli-export-x'')
     \<in> set (trace (snd (ImageExport test_env test_ref (init w_two_later))))"
    by code_simp
  from ok1 ok2 same d1 d2 ImageExport_deterministic [OF run1 run2 same] show ?thesis
    by blast
qed

section \<open>Properties of runLayerPull\<close>

text \<open>
  C10.  The outcome of \<open>runLayerPull\<close> is the parse error when the reference does not
  parse, and otherwise the outcome of copying the reader that \<^verbatim>\<open>BlobGet\<close> handed back
  to standard output: a panic on a \<^verbatim>\<open>nil\<close> reader, else the write error of the copy,
  else the error that ends the stream.  The error \<open>err\<close> that \<^verbatim>\<open>BlobGet\<close> returned
  occurs nowhere in it.
\<close>

theorem runLayerPull_discards_fetch_error:
  assumes fetched: "\<And>ref. NewRef env arg0 = Inr ref \<Longrightarrow> BlobGet env w ref arg1 [] = ((blobIO, err), w1)"
  shows "fst (runLayerPull env arg0 arg1 (init w)) =
           (case NewRef env arg0 of
              Inl e \<Rightarrow> Return (Some e)
            | Inr ref \<Rightarrow>
                (case blobIO of
                   None \<Rightarrow> Panic ''nil pointer dereference''
                 | Some r \<Rightarrow>
                     (case fst (CopyStdout env w1 (rdata r)) of
                        (n, Some e) \<Rightarrow> Return (Some e)
                      | (n, None) \<Rightarrow> Return (rerr r))))"
proof (cases "NewRef env arg0")
  case (Inl e)
  then show ?thesis by (simp add: runLayerPull_def)
next
  case (Inr ref)
  with fetched [OF Inr] show ?thesis
    by (auto simp: runLayerPull_def io_Copy_stdout_def call_def init_def Let_def
             split: prod.splits option.splits)
qed

theorem runLayerPull_discards_fetch_error_witness:
  "BlobGet env_failing_fetch w_two test_ref ''sha256:gone'' [] =
     ((Some (blob ''partial''), Some ErrNotFound), w_two) \<and>
   fst (runLayerPull env_failing_fetch ''reg/app'' ''sha256:gone'' (init w_two)) = Return None"
proof -
  have fetched: "BlobGet env_failing_fetch w_two ref ''sha256:gone'' [] =
                   ((Some (blob ''partial''), Some ErrNotFound), w_two)" for ref
    by (simp add: env_failing_fetch_def)
  have parsed: "NewRef env_failing_fetch ''reg/app'' = Inr test_ref"
    by code_simp
  have copied: "fst (CopyStdout env_failing_fetch w_two (rdata (blob ''partial''))) = (7, None)"
    by code_simp
  have clean: "rerr (blob ''partial'') = None"
    by (simp add: blob_def)
  from runLayerPull_discards_fetch_error [of env_failing_fetch "''reg/app''" w_two "''sha256:gone''",
         OF fetched] parsed copied clean fetched [of test_ref]
  show ?thesis by simp
qed

end
